theory Spec2Isabelle
  imports Main
begin

section \<open>The connection engine of websocket.go as a transition system\<close>

text \<open>
  The file websocket.go implements one WebSocket connection that several goroutines use
  at once. The embedding keeps the goroutines: every goroutine is a stack of frames, a
  frame is a function of the source together with its program point and its locals, and
  one step of the system runs one goroutine from one blocking point of the source to the
  next. Go's \<^verbatim>\<open>select\<close> takes any one of its ready cases; the case taken is part of
  the event, and a case that is not ready gives no step (\<open>None\<close>). Results of the
  byte stream (what a read returns, whether a write fails) are part of the event too.
\<close>

subsection \<open>Data\<close>

type_synonym bytes = string
type_synonym tid = nat

text \<open>Cancellation scopes: \<^verbatim>\<open>context.Background()\<close>, a scope of a caller, and the
  five-second scopes that writePong and writeClose make.\<close>

datatype ctx = Background | UserCtx nat | TimeoutCtx nat

datatype opcode = opContinuation | opText | opBinary | opClose | opPing | opPong | opReserved nat

type_synonym MessageType = opcode

datatype error =
    Errorf string "error option"
  | ErrNew string
  | CloseError nat string
  | CtxErr ctx
  | IOErr nat
  | EOF

text \<open>\<^verbatim>\<open>xerrors.Is\<close>: the target is the error itself or something it wraps.\<close>

fun Is :: "error \<Rightarrow> error \<Rightarrow> bool" where
  "Is (Errorf m (Some e)) t = (Errorf m (Some e) = t \<or> Is e t)"
| "Is e t = (e = t)"

definition wrap :: "string \<Rightarrow> error option \<Rightarrow> error option" where
  "wrap m e = (case e of None \<Rightarrow> None | Some x \<Rightarrow> Some (Errorf m (Some x)))"

record header =
  fin :: bool
  rsv1 :: bool
  rsv2 :: bool
  rsv3 :: bool
  opcode :: opcode
  payloadLength :: int
  masked :: bool
  maskKey :: bytes

definition header0 :: header where
  "header0 = \<lparr>fin = False, rsv1 = False, rsv2 = False, rsv3 = False, opcode = opContinuation,
     payloadLength = 0, masked = False, maskKey = replicate 4 (CHR 0x00)\<rparr>"

text \<open>Modelled from the spec: the opcode predicate of the frame codec (header.go is not
  among the sources). The spec calls the opcodes from 0x8 on control opcodes.\<close>

fun controlOp :: "opcode \<Rightarrow> bool" where
  "controlOp opClose = True"
| "controlOp opPing = True"
| "controlOp opPong = True"
| "controlOp (opReserved n) = (8 \<le> n)"
| "controlOp _ = False"

text \<open>Modelled from the spec: the masking transform of the frame codec,
  \<^verbatim>\<open>payload[i] ^= maskKey[(startPos + i) mod 4]\<close>; it returns the next position.\<close>

definition xor_byte :: "char \<Rightarrow> char \<Rightarrow> char" where
  "xor_byte a b = char_of (xor (of_char a) (of_char b) :: nat)"

fun fastXOR :: "bytes \<Rightarrow> nat \<Rightarrow> bytes \<Rightarrow> nat \<times> bytes" where
  "fastXOR key pos [] = (pos mod 4, [])"
| "fastXOR key pos (b # bs) =
     (case fastXOR key (pos + 1) bs of
        (pos', bs') \<Rightarrow> (pos', xor_byte b (if pos mod 4 < length key then key ! (pos mod 4) else CHR 0x00) # bs'))"

text \<open>Modelled from the spec: the constants of the status codes and of the control-frame
  limit, and the close payload encoder (two bytes of status, then the reason; a reason
  over 123 bytes and the codes that never go on the wire are refused).\<close>

definition maxControlFramePayload :: int where "maxControlFramePayload = 125"
definition StatusProtocolError :: nat where "StatusProtocolError = 1002"
definition StatusNoStatusRcvd :: nat where "StatusNoStatusRcvd = 1005"
definition StatusInternalError :: nat where "StatusInternalError = 1011"

definition ce_bytes :: "nat \<Rightarrow> string \<Rightarrow> error + bytes" where
  "ce_bytes code reason =
     (if 123 < length reason then Inl (ErrNew ''reason string too long'')
      else if code \<in> {1005, 1006, 1015} \<or> 65536 \<le> code then Inl (ErrNew ''status code cannot be set'')
      else Inr (char_of (code div 256) # char_of (code mod 256) # reason))"

datatype lock = WriteMsgLock | WriteFrameLock | ReadMsgLock | ReadFrameLock

datatype once = NotStarted | Running | Finished

datatype wire = WHeader header | WPayload bytes | WFlush

record Conn =
  client :: bool
  msgReadLimit :: int
  closeOnce :: once
  closeErr :: "error option"
  closed :: bool
  locks :: "lock \<Rightarrow> bool"
  activePings :: "string \<Rightarrow> nat option"
  pongClosed :: "nat \<Rightarrow> bool"
  closerCalls :: nat
  bw :: "wire list"

record messageWriter =
  w_ctx :: ctx
  w_opcode :: opcode
  w_closed :: bool

record messageReader =
  r_ctx :: ctx
  maskPos :: nat
  r_h :: "header option"
  eofed :: bool

record limitedReader =
  lr_r :: messageReader
  lr_left :: int

subsection \<open>Goroutines, frames and events\<close>

datatype call_pc = Enter | Wait | After

datatype close_pc = CL_Once | CL_Latch | CL_PoisonR | CL_PoisonW

datatype wf_pc = WF_Acquire | WF_Arm | WF_WriteHdr | WF_WritePayload | WF_Flush
  | WF_DeferErr | WF_Disarm | WF_Release

datatype rd_pc = RD_Acquire | RD_Select | RD_AfterClose

datatype rr_pc = RR_Enter | RR_Wait | RR_After | RR_Loaded int

datatype mr_pc = MR_Start | MR_AfterClose | MR_Arm | MR_Acquire | MR_ReadFull | MR_Disarm
  | MR_AfterErrClose | MR_Ack

datatype rl_pc = RL_Top | RL_Wait | RL_Got | RL_Send | RL_WaitDone | RL_Exit

datatype rt_pc = RT_Top | RT_Wait | RT_Got | RT_WaitCtl | RT_Fail

datatype rh_pc = RH_Acquire | RH_Read

datatype hc_pc = HC_Start | HC_Read | HC_Parse | HC_Ret

datatype wc_pc = WC_Start | WC_Wait1 | WC_AfterWM | WC_Wait2 | WC_AfterClose

datatype pg_pc = PG_Start | PG_Wait | PG_AfterWM | PG_Select

datatype tl_pc = TL_Select | TL_Exit

datatype frame =
    F_close close_pc "error option"
  | F_writeFrame wf_pc ctx header bytes "error option"
  | F_writeMessage call_pc ctx opcode bytes bool "error option"
  | F_Writer ctx MessageType
  | F_mwWrite call_pc messageWriter bytes "error option"
  | F_mwClose call_pc messageWriter "error option"
  | F_reader rd_pc ctx "error option"
  | F_Reader rr_pc ctx "(MessageType \<times> messageReader) option" "error option"
  | F_mrRead mr_pc messageReader nat bytes "error option"
  | F_readLoop rl_pc header "error option"
  | F_readTillMsg rt_pc header "error option"
  | F_readHeader rh_pc
  | F_handleControl hc_pc header bytes
  | F_writePong call_pc bytes ctx "error option"
  | F_Close call_pc nat string "error option"
  | F_writeClose wc_pc bytes error ctx "error option"
  | F_ping pg_pc ctx nat string nat "error option"
  | F_timeoutLoop tl_pc ctx ctx ctx
  | F_SetReadLimit int
  | F_panic string

datatype retval =
    RUnit
  | RErr "error option"
  | RHeader header "error option"
  | RWriter "messageWriter option" "error option"
  | RReader "(MessageType \<times> messageReader) option" "error option"
  | RLimited "(MessageType \<times> limitedReader) option" "error option"
  | RWrite messageWriter nat "error option"
  | RMClose messageWriter "error option"
  | RRead messageReader nat bytes "error option"

datatype act = Goto frame | Call frame frame | Return retval

text \<open>What decides a step besides the state: the case a \<^verbatim>\<open>select\<close> takes
  (\<open>ChCtxDone\<close>, \<open>ChClosed\<close>, \<open>ChLock\<close> for the send into a slot, \<open>ChComm\<close> for
  the send or receive on an unbuffered channel, and the three scopes the deadline
  coordinator watches), and what the byte stream or a function outside the file
  returns.\<close>

datatype choice =
    ChTau
  | ChCtxDone
  | ChClosed
  | ChLock
  | ChComm
  | ChReadDone
  | ChWriteDone
  | ChParentDone
  | ChIO "error option"
  | ChHdr "error + header"
  | ChRead bytes "error option"
  | ChParse "error + nat \<times> string"

datatype api =
    CallWriter ctx MessageType
  | CallWrite ctx MessageType bytes
  | CallMwWrite bytes
  | CallMwClose
  | CallReader ctx
  | CallMrRead nat
  | CallPing ctx nat
  | CallClose nat string
  | CallSetReadLimit int

datatype event = Start tid api | Cancel ctx | Run tid choice

record sys =
  conn :: Conn
  thr :: "tid \<Rightarrow> frame list"
  res :: "tid \<Rightarrow> retval option"
  mw :: "tid \<Rightarrow> messageWriter option"
  rd :: "tid \<Rightarrow> limitedReader option"
  cancelled :: "ctx \<Rightarrow> bool"
  nextCtx :: nat
  nextChan :: nat

text \<open>Goroutine 0 is the reader pump (readLoop), goroutine 1 the deadline coordinator
  (timeoutLoop); both are started by \<^verbatim>\<open>init\<close>. The callers are the goroutines
  from 2 on.\<close>

definition pump :: tid where "pump = 0"
definition timer :: tid where "timer = 1"

definition init_conn :: "bool \<Rightarrow> Conn" where
  "init_conn cl = \<lparr>client = cl, msgReadLimit = 32768, closeOnce = NotStarted, closeErr = None,
     closed = False, locks = (\<lambda>_. False), activePings = (\<lambda>_. None), pongClosed = (\<lambda>_. False),
     closerCalls = 0, bw = []\<rparr>"

definition init :: "bool \<Rightarrow> sys" where
  "init cl = \<lparr>conn = init_conn cl,
     thr = (\<lambda>_. [])(pump := [F_readLoop RL_Top header0 None],
                     timer := [F_timeoutLoop TL_Select Background Background Background]),
     res = (\<lambda>_. None), mw = (\<lambda>_. None), rd = (\<lambda>_. None),
     cancelled = (\<lambda>_. False), nextCtx = 0, nextChan = 0\<rparr>"

subsection \<open>Slots\<close>

text \<open>A slot is a channel with a buffer of one; \<open>locks c l\<close> says that the buffer is
  full. acquireLock is one \<^verbatim>\<open>select\<close> over the scope, the closed latch and the send
  into the slot; it returns \<^verbatim>\<open>c.closeErr\<close> as it stands when it takes the latch.\<close>

definition setLock :: "lock \<Rightarrow> bool \<Rightarrow> sys \<Rightarrow> sys" where
  "setLock l b s = s\<lparr>conn := (conn s)\<lparr>locks := (locks (conn s))(l := b)\<rparr>\<rparr>"

definition acquireLock :: "choice \<Rightarrow> ctx \<Rightarrow> lock \<Rightarrow> sys \<Rightarrow> (error option \<times> sys) option" where
  "acquireLock ch c l s =
     (case ch of
        ChCtxDone \<Rightarrow> if cancelled s c then Some (Some (CtxErr c), s) else None
      | ChClosed \<Rightarrow> if closed (conn s) then Some (closeErr (conn s), s) else None
      | ChLock \<Rightarrow> if locks (conn s) l then None else Some (None, setLock l True s)
      | _ \<Rightarrow> None)"

text \<open>releaseLock takes whatever is in the slot and does nothing on an empty one.\<close>

definition releaseLock :: "lock \<Rightarrow> sys \<Rightarrow> sys" where
  "releaseLock l s = (if locks (conn s) l then setLock l False s else s)"

subsection \<open>The close coordinator\<close>

text \<open>\<^verbatim>\<open>c.close(err)\<close>. \<^verbatim>\<open>sync.Once\<close> lets the first caller in, holds every other
  caller until the first has left, and then lets them pass without running the body.
  The result of \<^verbatim>\<open>c.closer.Close()\<close> comes with the event.\<close>

definition exec_close :: "choice \<Rightarrow> close_pc \<Rightarrow> error option \<Rightarrow> sys \<Rightarrow> (act \<times> sys) option" where
  "exec_close ch pc err s =
     (case pc of
        CL_Once \<Rightarrow>
          (case closeOnce (conn s) of
             Finished \<Rightarrow> (case ch of ChTau \<Rightarrow> Some (Return RUnit, s) | _ \<Rightarrow> None)
           | Running \<Rightarrow> None
           | NotStarted \<Rightarrow>
               (case ch of
                  ChIO cerr \<Rightarrow>
                    Some (Goto (F_close CL_Latch err),
                      s\<lparr>conn := (conn s)\<lparr>closeOnce := Running,
                        closerCalls := Suc (closerCalls (conn s)),
                        closeErr := Some (Errorf ''websocket closed'' (if err \<noteq> None then err else cerr))\<rparr>\<rparr>)
                | _ \<Rightarrow> None))
      | CL_Latch \<Rightarrow>
          (case ch of
             ChTau \<Rightarrow> Some (Goto (F_close CL_PoisonR err), s\<lparr>conn := (conn s)\<lparr>closed := True\<rparr>\<rparr>)
           | _ \<Rightarrow> None)
      | CL_PoisonR \<Rightarrow>
          (case ch of
             ChLock \<Rightarrow> if locks (conn s) ReadFrameLock then None
                       else Some (Goto (F_close CL_PoisonW err), setLock ReadFrameLock True s)
           | _ \<Rightarrow> None)
      | CL_PoisonW \<Rightarrow>
          (case ch of
             ChLock \<Rightarrow> if locks (conn s) WriteFrameLock then None
                       else Some (Return RUnit,
                         (setLock WriteFrameLock True s)\<lparr>conn := (conn (setLock WriteFrameLock True s))\<lparr>closeOnce := Finished\<rparr>\<rparr>)
           | _ \<Rightarrow> None))"

subsection \<open>The write path\<close>

text \<open>A send on \<^verbatim>\<open>c.setWriteTimeout\<close> or \<^verbatim>\<open>c.setReadTimeout\<close> goes through when
  timeoutLoop stands at its \<^verbatim>\<open>select\<close>; it stores the scope in the coordinator's
  local.\<close>

definition setWriteTimeout :: "ctx \<Rightarrow> sys \<Rightarrow> sys option" where
  "setWriteTimeout c s =
     (case thr s timer of
        F_timeoutLoop TL_Select r w p # st \<Rightarrow>
          Some (s\<lparr>thr := (thr s)(timer := F_timeoutLoop TL_Select r c p # st)\<rparr>)
      | _ \<Rightarrow> None)"

definition setReadTimeout :: "ctx \<Rightarrow> sys \<Rightarrow> sys option" where
  "setReadTimeout c s =
     (case thr s timer of
        F_timeoutLoop TL_Select r w p # st \<Rightarrow>
          Some (s\<lparr>thr := (thr s)(timer := F_timeoutLoop TL_Select c w p # st)\<rparr>)
      | _ \<Rightarrow> None)"

definition emit :: "wire \<Rightarrow> sys \<Rightarrow> sys" where
  "emit x s = s\<lparr>conn := (conn s)\<lparr>bw := bw (conn s) @ [x]\<rparr>\<rparr>"

text \<open>\<^verbatim>\<open>writeFrame(ctx, h, p)\<close>, lines 149 to 203. The three deferred functions run
  last registered first: the one that closes the connection on an error (\<open>WF_DeferErr\<close>),
  the one that removes the write timeout (\<open>WF_Disarm\<close>), the release of the write-frame
  slot (\<open>WF_Release\<close>). A return before line 163 has only the release to run.\<close>

definition exec_writeFrame ::
  "choice \<Rightarrow> wf_pc \<Rightarrow> ctx \<Rightarrow> header \<Rightarrow> bytes \<Rightarrow> error option \<Rightarrow> sys \<Rightarrow> (act \<times> sys) option" where
  "exec_writeFrame ch pc c h p err s =
     (case pc of
        WF_Acquire \<Rightarrow>
          (case acquireLock ch c WriteFrameLock s of
             None \<Rightarrow> None
           | Some (e, s') \<Rightarrow>
               if e \<noteq> None then Some (Return (RErr e), s')
               else Some (Goto (F_writeFrame WF_Arm c h p None), s'))
      | WF_Arm \<Rightarrow>
          (case ch of
             ChCtxDone \<Rightarrow>
               if cancelled s c then Some (Goto (F_writeFrame WF_Release c h p (Some (CtxErr c))), s)
               else None
           | ChClosed \<Rightarrow>
               if closed (conn s) then Some (Goto (F_writeFrame WF_Release c h p (closeErr (conn s))), s)
               else None
           | ChComm \<Rightarrow>
               (case setWriteTimeout c s of
                  None \<Rightarrow> None
                | Some s' \<Rightarrow>
                    Some (Goto (F_writeFrame WF_WriteHdr c
                            (h\<lparr>masked := client (conn s), payloadLength := int (length p)\<rparr>) p None), s'))
           | _ \<Rightarrow> None)
      | WF_WriteHdr \<Rightarrow>
          (case ch of
             ChIO None \<Rightarrow> Some (Goto (F_writeFrame WF_WritePayload c h p None), emit (WHeader h) s)
           | ChIO (Some e) \<Rightarrow>
               Some (Goto (F_writeFrame WF_DeferErr c h p
                       (Some (Errorf ''failed to write to connection'' (Some e)))), s)
           | _ \<Rightarrow> None)
      | WF_WritePayload \<Rightarrow>
          (case ch of
             ChIO None \<Rightarrow>
               Some (Goto (F_writeFrame (if fin h then WF_Flush else WF_DeferErr) c h p None),
                     emit (WPayload p) s)
           | ChIO (Some e) \<Rightarrow>
               Some (Goto (F_writeFrame WF_DeferErr c h p
                       (Some (Errorf ''failed to write to connection'' (Some e)))), s)
           | _ \<Rightarrow> None)
      | WF_Flush \<Rightarrow>
          (case ch of
             ChIO None \<Rightarrow> Some (Goto (F_writeFrame WF_DeferErr c h p None), emit WFlush s)
           | ChIO (Some e) \<Rightarrow>
               Some (Goto (F_writeFrame WF_DeferErr c h p
                       (Some (Errorf ''failed to write to connection'' (Some e)))), s)
           | _ \<Rightarrow> None)
      | WF_DeferErr \<Rightarrow>
          (case ch of
             ChTau \<Rightarrow>
               if err \<noteq> None
               then Some (Call (F_close CL_Once err) (F_writeFrame WF_Disarm c h p err),
                          releaseLock WriteFrameLock s)
               else Some (Goto (F_writeFrame WF_Disarm c h p err), s)
           | _ \<Rightarrow> None)
      | WF_Disarm \<Rightarrow>
          (case ch of
             ChClosed \<Rightarrow>
               if closed (conn s) then Some (Goto (F_writeFrame WF_Release c h p err), s) else None
           | ChComm \<Rightarrow>
               (case setWriteTimeout Background s of
                  None \<Rightarrow> None
                | Some s' \<Rightarrow> Some (Goto (F_writeFrame WF_Release c h p err), s'))
           | _ \<Rightarrow> None)
      | WF_Release \<Rightarrow>
          (case ch of
             ChTau \<Rightarrow> Some (Return (RErr err), releaseLock WriteFrameLock s)
           | _ \<Rightarrow> None))"

text \<open>\<^verbatim>\<open>writeMessage(ctx, opcode, p)\<close>, lines 448 to 465; \<open>held\<close> says that the
  deferred release of the write-message slot is registered. \<^verbatim>\<open>Write\<close> is this
  function at the opcode of the message type.\<close>

definition exec_writeMessage ::
  "choice \<Rightarrow> call_pc \<Rightarrow> ctx \<Rightarrow> opcode \<Rightarrow> bytes \<Rightarrow> bool \<Rightarrow> error option \<Rightarrow> sys \<Rightarrow> (act \<times> sys) option" where
  "exec_writeMessage ch pc c opc p held err s =
     (case pc of
        Enter \<Rightarrow>
          if \<not> controlOp opc then
            (case acquireLock ch c WriteMsgLock s of
               None \<Rightarrow> None
             | Some (e, s') \<Rightarrow>
                 if e \<noteq> None then Some (Return (RErr e), s')
                 else Some (Call (F_writeFrame WF_Acquire c (header0\<lparr>fin := True, opcode := opc\<rparr>) p None)
                                 (F_writeMessage Wait c opc p True None), s'))
          else
            (case ch of
               ChTau \<Rightarrow>
                 Some (Call (F_writeFrame WF_Acquire c (header0\<lparr>fin := True, opcode := opc\<rparr>) p None)
                            (F_writeMessage Wait c opc p False None), s)
             | _ \<Rightarrow> None)
      | Wait \<Rightarrow> None
      | After \<Rightarrow>
          (case ch of
             ChTau \<Rightarrow>
               Some (Return (RErr (wrap ''failed to write frame'' err)),
                     if held then releaseLock WriteMsgLock s else s)
           | _ \<Rightarrow> None))"

text \<open>\<^verbatim>\<open>Writer\<close> with \<^verbatim>\<open>writer\<close>, lines 474 to 492: one acquire of the
  write-message slot.\<close>

definition exec_Writer :: "choice \<Rightarrow> ctx \<Rightarrow> MessageType \<Rightarrow> sys \<Rightarrow> (act \<times> sys) option" where
  "exec_Writer ch c typ s =
     (case acquireLock ch c WriteMsgLock s of
        None \<Rightarrow> None
      | Some (e, s') \<Rightarrow>
          if e \<noteq> None then Some (Return (RWriter None (wrap ''failed to get writer'' e)), s')
          else Some (Return (RWriter (Some \<lparr>w_ctx = c, w_opcode = typ, w_closed = False\<rparr>) None), s'))"

text \<open>\<^verbatim>\<open>messageWriter.write\<close>, lines 541 to 553, and \<^verbatim>\<open>messageWriter.close\<close>,
  lines 565 to 581.\<close>

definition exec_mwWrite ::
  "choice \<Rightarrow> call_pc \<Rightarrow> messageWriter \<Rightarrow> bytes \<Rightarrow> error option \<Rightarrow> sys \<Rightarrow> (act \<times> sys) option" where
  "exec_mwWrite ch pc w p err s =
     (case ch of
        ChTau \<Rightarrow>
          (case pc of
             Enter \<Rightarrow>
               if w_closed w then Some (Return (RWrite w 0 (Some (ErrNew ''cannot use closed writer''))), s)
               else Some (Call (F_writeFrame WF_Acquire (w_ctx w) (header0\<lparr>opcode := w_opcode w\<rparr>) p None)
                               (F_mwWrite Wait w p None), s)
           | Wait \<Rightarrow> None
           | After \<Rightarrow>
               if err \<noteq> None then Some (Return (RWrite w 0 err), s)
               else Some (Return (RWrite (w\<lparr>w_opcode := opContinuation\<rparr>) (length p) None), s))
      | _ \<Rightarrow> None)"

definition exec_mwClose ::
  "choice \<Rightarrow> call_pc \<Rightarrow> messageWriter \<Rightarrow> error option \<Rightarrow> sys \<Rightarrow> (act \<times> sys) option" where
  "exec_mwClose ch pc w err s =
     (case ch of
        ChTau \<Rightarrow>
          (case pc of
             Enter \<Rightarrow>
               if w_closed w then Some (Return (RMClose w (Some (ErrNew ''cannot use closed writer''))), s)
               else Some (Call (F_writeFrame WF_Acquire (w_ctx w)
                                  (header0\<lparr>fin := True, opcode := w_opcode w\<rparr>) [] None)
                               (F_mwClose Wait (w\<lparr>w_closed := True\<rparr>) None), s)
           | Wait \<Rightarrow> None
           | After \<Rightarrow>
               if err \<noteq> None then Some (Return (RMClose w err), s)
               else Some (Return (RMClose w None), releaseLock WriteMsgLock s))
      | _ \<Rightarrow> None)"

subsection \<open>Closing from the outside\<close>

definition cancel :: "ctx \<Rightarrow> sys \<Rightarrow> sys" where
  "cancel c s = s\<lparr>cancelled := (cancelled s)(c := True)\<rparr>"

definition IsOpt :: "error option \<Rightarrow> error \<Rightarrow> bool" where
  "IsOpt eo t = (case eo of None \<Rightarrow> False | Some e \<Rightarrow> Is e t)"

text \<open>\<^verbatim>\<open>Close\<close> with \<^verbatim>\<open>exportedClose\<close>, lines 381 to 408, and \<^verbatim>\<open>writeClose\<close>,
  lines 410 to 427.\<close>

definition exec_Close ::
  "choice \<Rightarrow> call_pc \<Rightarrow> nat \<Rightarrow> string \<Rightarrow> error option \<Rightarrow> sys \<Rightarrow> (act \<times> sys) option" where
  "exec_Close ch pc code reason err s =
     (case ch of
        ChTau \<Rightarrow>
          (case pc of
             Enter \<Rightarrow>
               (case ce_bytes code reason of
                  Inr p \<Rightarrow>
                    Some (Call (F_writeClose WC_Start p (CloseError code reason) Background None)
                               (F_Close Wait code reason None), s)
                | Inl _ \<Rightarrow>
                    Some (Call (F_writeClose WC_Start
                                  (case ce_bytes StatusInternalError [] of Inr p \<Rightarrow> p | Inl _ \<Rightarrow> [])
                                  (CloseError StatusInternalError []) Background None)
                               (F_Close Wait code reason None), s))
           | Wait \<Rightarrow> None
           | After \<Rightarrow> Some (Return (RErr (wrap ''failed to close connection'' err)), s))
      | _ \<Rightarrow> None)"

definition exec_writeClose ::
  "choice \<Rightarrow> wc_pc \<Rightarrow> bytes \<Rightarrow> error \<Rightarrow> ctx \<Rightarrow> error option \<Rightarrow> sys \<Rightarrow> (act \<times> sys) option" where
  "exec_writeClose ch pc p cerr c err s =
     (case ch of
        ChTau \<Rightarrow>
          (case pc of
             WC_Start \<Rightarrow>
               Some (Call (F_writeMessage Enter (TimeoutCtx (nextCtx s)) opClose p False None)
                          (F_writeClose WC_Wait1 p cerr (TimeoutCtx (nextCtx s)) None),
                     s\<lparr>nextCtx := Suc (nextCtx s)\<rparr>)
           | WC_Wait1 \<Rightarrow> None
           | WC_AfterWM \<Rightarrow>
               Some (Call (F_close CL_Once (Some cerr)) (F_writeClose WC_Wait2 p cerr c err), s)
           | WC_Wait2 \<Rightarrow> None
           | WC_AfterClose \<Rightarrow>
               Some (Return (RErr (if err \<noteq> None then err
                                   else if \<not> IsOpt (closeErr (conn s)) cerr then closeErr (conn s)
                                   else None)),
                     cancel c s))
      | _ \<Rightarrow> None)"

definition exec_writePong ::
  "choice \<Rightarrow> call_pc \<Rightarrow> bytes \<Rightarrow> ctx \<Rightarrow> error option \<Rightarrow> sys \<Rightarrow> (act \<times> sys) option" where
  "exec_writePong ch pc p c err s =
     (case ch of
        ChTau \<Rightarrow>
          (case pc of
             Enter \<Rightarrow>
               Some (Call (F_writeMessage Enter (TimeoutCtx (nextCtx s)) opPong p False None)
                          (F_writePong Wait p (TimeoutCtx (nextCtx s)) None),
                     s\<lparr>nextCtx := Suc (nextCtx s)\<rparr>)
           | Wait \<Rightarrow> None
           | After \<Rightarrow> Some (Return (RErr err), cancel c s))
      | _ \<Rightarrow> None)"

subsection \<open>The read path\<close>

text \<open>The two unbuffered channels between readLoop and a reader: a receive on
  \<^verbatim>\<open>c.readMsg\<close> goes through when readLoop stands at its send (line 351), a send on
  \<^verbatim>\<open>c.readMsgDone\<close> when it stands at its receive (line 357).\<close>

definition recvReadMsg :: "sys \<Rightarrow> (header \<times> sys) option" where
  "recvReadMsg s =
     (case thr s pump of
        F_readLoop RL_Send h e # st \<Rightarrow>
          Some (h, s\<lparr>thr := (thr s)(pump := F_readLoop RL_WaitDone h e # st)\<rparr>)
      | _ \<Rightarrow> None)"

definition sendReadMsgDone :: "sys \<Rightarrow> sys option" where
  "sendReadMsgDone s =
     (case thr s pump of
        F_readLoop RL_WaitDone h e # st \<Rightarrow>
          Some (s\<lparr>thr := (thr s)(pump := F_readLoop RL_Top h e # st)\<rparr>)
      | _ \<Rightarrow> None)"

text \<open>\<^verbatim>\<open>reader\<close>, lines 604 to 630, and \<^verbatim>\<open>Reader\<close>, lines 591 to 602. \<^verbatim>\<open>Reader\<close>
  loads the message-read limit at line 596, once \<^verbatim>\<open>reader\<close> has returned without an
  error, and returns at lines 597 to 601; the load and the return are two steps, and
  \<open>RR_Loaded n\<close> is the point between them, \<open>n\<close> the value of \<^verbatim>\<open>readLimit\<close>.\<close>

definition exec_reader :: "choice \<Rightarrow> rd_pc \<Rightarrow> ctx \<Rightarrow> error option \<Rightarrow> sys \<Rightarrow> (act \<times> sys) option" where
  "exec_reader ch pc c ce s =
     (case pc of
        RD_Acquire \<Rightarrow>
          (case acquireLock ch c ReadMsgLock s of
             None \<Rightarrow> None
           | Some (e, s') \<Rightarrow>
               if e \<noteq> None then Some (Return (RReader None e), s')
               else Some (Goto (F_reader RD_Select c None), s'))
      | RD_Select \<Rightarrow>
          (case ch of
             ChClosed \<Rightarrow>
               if closed (conn s) then Some (Return (RReader None (closeErr (conn s))), s) else None
           | ChCtxDone \<Rightarrow>
               if cancelled s c then Some (Return (RReader None (Some (CtxErr c))), s) else None
           | ChComm \<Rightarrow>
               (case recvReadMsg s of
                  None \<Rightarrow> None
                | Some (h, s') \<Rightarrow>
                    if opcode h = opContinuation
                    then Some (Call (F_Close Enter StatusProtocolError
                                       ''continuation frame not after data or text frame'' None)
                                    (F_reader RD_AfterClose c
                                       (Some (CloseError StatusProtocolError
                                          ''continuation frame not after data or text frame''))), s')
                    else Some (Return (RReader
                                 (Some (opcode h, \<lparr>r_ctx = c, maskPos = 0, r_h = Some h, eofed = False\<rparr>))
                                 None), s'))
           | _ \<Rightarrow> None)
      | RD_AfterClose \<Rightarrow>
          (case ch of ChTau \<Rightarrow> Some (Return (RReader None ce), s) | _ \<Rightarrow> None))"

definition exec_Reader ::
  "choice \<Rightarrow> rr_pc \<Rightarrow> ctx \<Rightarrow> (MessageType \<times> messageReader) option \<Rightarrow> error option \<Rightarrow> sys
   \<Rightarrow> (act \<times> sys) option" where
  "exec_Reader ch pc c x err s =
     (case ch of
        ChTau \<Rightarrow>
          (case pc of
             RR_Enter \<Rightarrow> Some (Call (F_reader RD_Acquire c None) (F_Reader RR_Wait c None None), s)
           | RR_Wait \<Rightarrow> None
           | RR_After \<Rightarrow>
               if err \<noteq> None then Some (Return (RLimited None (wrap ''failed to get reader'' err)), s)
               else Some (Goto (F_Reader (RR_Loaded (msgReadLimit (conn s))) c x None), s)
           | RR_Loaded n \<Rightarrow>
               (case x of
                  None \<Rightarrow> Some (Return (RLimited None None), s)
                | Some (typ, r) \<Rightarrow>
                    Some (Return (RLimited (Some (typ, \<lparr>lr_r = r, lr_left = n\<rparr>)) None), s)))
      | _ \<Rightarrow> None)"

text \<open>\<^verbatim>\<open>messageReader.read(p)\<close>, lines 655 to 726. Of the buffer only its length
  matters; the frame holds it as \<open>k\<close> until the bytes are read and the number of bytes
  read from then on. \<^verbatim>\<open>io.ReadFull\<close> returns at most \<open>k\<close> bytes and an error exactly
  when it returns fewer. Slicing the buffer to a negative length is a panic.\<close>

definition exec_mrRead ::
  "choice \<Rightarrow> mr_pc \<Rightarrow> messageReader \<Rightarrow> nat \<Rightarrow> bytes \<Rightarrow> error option \<Rightarrow> sys \<Rightarrow> (act \<times> sys) option" where
  "exec_mrRead ch pc r k d err s =
     (case pc of
        MR_Start \<Rightarrow>
          if eofed r then
            (case ch of
               ChTau \<Rightarrow> Some (Return (RRead r 0 [] (Some (ErrNew ''cannot use EOFed reader''))), s)
             | _ \<Rightarrow> None)
          else
            (case r_h r of
               Some h \<Rightarrow> (case ch of ChTau \<Rightarrow> Some (Goto (F_mrRead MR_Arm r k [] None), s) | _ \<Rightarrow> None)
             | None \<Rightarrow>
                 (case ch of
                    ChClosed \<Rightarrow>
                      if closed (conn s) then Some (Return (RRead r 0 [] (closeErr (conn s))), s) else None
                  | ChComm \<Rightarrow>
                      (case recvReadMsg s of
                         None \<Rightarrow> None
                       | Some (h, s') \<Rightarrow>
                           if opcode h \<noteq> opContinuation
                           then Some (Call (F_Close Enter StatusProtocolError
                                   ''cannot read new data frame when previous frame is not finished'' None)
                                 (F_mrRead MR_AfterClose r k []
                                    (Some (CloseError StatusProtocolError
                                       ''cannot read new data frame when previous frame is not finished''))),
                                 s')
                           else Some (Goto (F_mrRead MR_Arm (r\<lparr>r_h := Some h\<rparr>) k [] None), s'))
                  | _ \<Rightarrow> None))
      | MR_AfterClose \<Rightarrow>
          (case ch of ChTau \<Rightarrow> Some (Return (RRead r 0 [] err), s) | _ \<Rightarrow> None)
      | MR_Arm \<Rightarrow>
          (case r_h r of
             None \<Rightarrow> None
           | Some h \<Rightarrow>
               if payloadLength h < 0 \<and> payloadLength h < int k
               then (case ch of ChTau \<Rightarrow> Some (Goto (F_panic ''slice bounds out of range''), s) | _ \<Rightarrow> None)
               else
                 (case ch of
                    ChClosed \<Rightarrow>
                      if closed (conn s) then Some (Return (RRead r 0 [] (closeErr (conn s))), s) else None
                  | ChComm \<Rightarrow>
                      (case setReadTimeout (r_ctx r) s of
                         None \<Rightarrow> None
                       | Some s' \<Rightarrow>
                           Some (Goto (F_mrRead MR_Acquire r
                                   (if payloadLength h < int k then nat (payloadLength h) else k) [] None), s'))
                  | _ \<Rightarrow> None))
      | MR_Acquire \<Rightarrow>
          (case acquireLock ch (r_ctx r) ReadFrameLock s of
             None \<Rightarrow> None
           | Some (e, s') \<Rightarrow>
               if e \<noteq> None then Some (Return (RRead r 0 [] e), s')
               else Some (Goto (F_mrRead MR_ReadFull r k [] None), s'))
      | MR_ReadFull \<Rightarrow>
          (case ch of
             ChRead b eo \<Rightarrow>
               if length b \<le> k \<and> (eo = None \<longleftrightarrow> length b = k)
               then Some (Goto (F_mrRead MR_Disarm r (length b) b eo), releaseLock ReadFrameLock s)
               else None
           | _ \<Rightarrow> None)
      | MR_Disarm \<Rightarrow>
          (case r_h r of
             None \<Rightarrow> None
           | Some h \<Rightarrow>
               (case ch of
                  ChClosed \<Rightarrow>
                    if closed (conn s) then Some (Return (RRead r 0 [] (closeErr (conn s))), s) else None
                | ChComm \<Rightarrow>
                    (case setReadTimeout Background s of
                       None \<Rightarrow> None
                     | Some s' \<Rightarrow>
                         (let h' = h\<lparr>payloadLength := payloadLength h - int k\<rparr>;
                              m = (if masked h then fastXOR (maskKey h) (maskPos r) d else (maskPos r, d));
                              r' = r\<lparr>r_h := Some h', maskPos := fst m\<rparr>
                          in if err \<noteq> None
                             then Some (Call (F_close CL_Once
                                          (Some (Errorf ''failed to read control frame payload'' err)))
                                        (F_mrRead MR_AfterErrClose r' k (snd m) err), s')
                             else if payloadLength h' = 0
                             then Some (Goto (F_mrRead MR_Ack r' k (snd m) None), s')
                             else Some (Return (RRead r' k (snd m) None), s')))
                | _ \<Rightarrow> None))
      | MR_AfterErrClose \<Rightarrow>
          (case ch of ChTau \<Rightarrow> Some (Return (RRead r k d (closeErr (conn s))), s) | _ \<Rightarrow> None)
      | MR_Ack \<Rightarrow>
          (case r_h r of
             None \<Rightarrow> None
           | Some h \<Rightarrow>
               (case ch of
                  ChClosed \<Rightarrow>
                    if closed (conn s) then Some (Return (RRead r k d (closeErr (conn s))), s) else None
                | ChComm \<Rightarrow>
                    (case sendReadMsgDone s of
                       None \<Rightarrow> None
                     | Some s' \<Rightarrow>
                         if fin h
                         then Some (Return (RRead (r\<lparr>eofed := True\<rparr>) k d (Some EOF)),
                                    releaseLock ReadMsgLock s')
                         else Some (Return (RRead (r\<lparr>maskPos := 0, r_h := None\<rparr>) k d None), s'))
                | _ \<Rightarrow> None)))"

subsection \<open>The reader pump\<close>

text \<open>\<^verbatim>\<open>strconv.FormatUint(n, 10)\<close>, which also prints an opcode outside the named
  ones in a close reason.\<close>

function FormatUint :: "nat \<Rightarrow> string" where
  "FormatUint n =
     (if n < 10 then [char_of (48 + n)] else FormatUint (n div 10) @ [char_of (48 + n mod 10)])"
  by pat_completeness auto
termination
  by (relation "measure id") auto

declare FormatUint.simps [simp del]

definition show_bool :: "bool \<Rightarrow> string" where
  "show_bool b = (if b then ''true'' else ''false'')"

definition show_opcode :: "opcode \<Rightarrow> string" where
  "show_opcode opc =
     (case opc of
        opContinuation \<Rightarrow> ''opContinuation'' | opText \<Rightarrow> ''opText'' | opBinary \<Rightarrow> ''opBinary''
      | opClose \<Rightarrow> ''opClose'' | opPing \<Rightarrow> ''opPing'' | opPong \<Rightarrow> ''opPong''
      | opReserved n \<Rightarrow> ''opcode('' @ FormatUint n @ '')'')"

text \<open>The method \<^verbatim>\<open>c.readHeader\<close>, lines 319 to 332; the header that the codec decodes
  from the stream, or its error, comes with the event.\<close>

definition exec_readHeader :: "choice \<Rightarrow> rh_pc \<Rightarrow> sys \<Rightarrow> (act \<times> sys) option" where
  "exec_readHeader ch pc s =
     (case pc of
        RH_Acquire \<Rightarrow>
          (case acquireLock ch Background ReadFrameLock s of
             None \<Rightarrow> None
           | Some (e, s') \<Rightarrow>
               if e \<noteq> None then Some (Return (RHeader header0 e), s')
               else Some (Goto (F_readHeader RH_Read), s'))
      | RH_Read \<Rightarrow>
          (case ch of
             ChHdr (Inr h) \<Rightarrow> Some (Return (RHeader h None), releaseLock ReadFrameLock s)
           | ChHdr (Inl e) \<Rightarrow>
               Some (Return (RHeader header0 (Some (Errorf ''failed to read header'' (Some e)))),
                     releaseLock ReadFrameLock s)
           | _ \<Rightarrow> None))"

text \<open>\<^verbatim>\<open>handleControl(h)\<close>, lines 236 to 282. The payload that the close codec parses,
  or its error, comes with the event. Closing a channel that is closed is a panic.\<close>

definition exec_handleControl ::
  "choice \<Rightarrow> hc_pc \<Rightarrow> header \<Rightarrow> bytes \<Rightarrow> sys \<Rightarrow> (act \<times> sys) option" where
  "exec_handleControl ch pc h b s =
     (case pc of
        HC_Start \<Rightarrow>
          (case ch of
             ChTau \<Rightarrow>
               if maxControlFramePayload < payloadLength h
               then Some (Call (F_Close Enter StatusProtocolError ''control frame too large'' None)
                               (F_handleControl HC_Ret h b), s)
               else if \<not> fin h
               then Some (Call (F_Close Enter StatusProtocolError ''control frame cannot be fragmented'' None)
                               (F_handleControl HC_Ret h b), s)
               else if payloadLength h < 0
               then Some (Goto (F_panic ''makeslice: len out of range''), s)
               else Some (Goto (F_handleControl HC_Read h b), s)
           | _ \<Rightarrow> None)
      | HC_Read \<Rightarrow>
          (case ch of
             ChRead d eo \<Rightarrow>
               if \<not> (length d \<le> nat (payloadLength h) \<and> (eo = None \<longleftrightarrow> length d = nat (payloadLength h)))
               then None
               else if eo \<noteq> None
               then Some (Call (F_close CL_Once (Some (Errorf ''failed to read control frame payload'' eo)))
                               (F_handleControl HC_Ret h d), s)
               else
                 (let b' = (if masked h then snd (fastXOR (maskKey h) 0 d) else d) in
                  case opcode h of
                    opPing \<Rightarrow>
                      Some (Call (F_writePong Enter b' Background None) (F_handleControl HC_Ret h b'), s)
                  | opPong \<Rightarrow>
                      (case activePings (conn s) b' of
                         None \<Rightarrow> Some (Goto (F_handleControl HC_Ret h b'), s)
                       | Some pong \<Rightarrow>
                           if pongClosed (conn s) pong
                           then Some (Goto (F_panic ''close of closed channel''), s)
                           else Some (Goto (F_handleControl HC_Ret h b'),
                                      s\<lparr>conn := (conn s)\<lparr>pongClosed := (pongClosed (conn s))(pong := True)\<rparr>\<rparr>))
                  | opClose \<Rightarrow> Some (Goto (F_handleControl HC_Parse h b'), s)
                  | _ \<Rightarrow> Some (Goto (F_panic ''websocket: unexpected control opcode''), s))
           | _ \<Rightarrow> None)
      | HC_Parse \<Rightarrow>
          (case ch of
             ChParse (Inl e) \<Rightarrow>
               Some (Call (F_close CL_Once (Some (Errorf ''received invalid close payload'' (Some e))))
                          (F_handleControl HC_Ret h b), s)
           | ChParse (Inr (code, reason)) \<Rightarrow>
               if code = StatusNoStatusRcvd
               then Some (Call (F_writeClose WC_Start [] (CloseError code reason) Background None)
                               (F_handleControl HC_Ret h b), s)
               else Some (Call (F_Close Enter code reason None) (F_handleControl HC_Ret h b), s)
           | _ \<Rightarrow> None)
      | HC_Ret \<Rightarrow>
          (case ch of ChTau \<Rightarrow> Some (Return RUnit, s) | _ \<Rightarrow> None))"

text \<open>\<^verbatim>\<open>readTillMsg\<close>, lines 284 to 317.\<close>

definition rsvReason :: "header \<Rightarrow> string" where
  "rsvReason h = ''received header with rsv bits set: '' @ show_bool (rsv1 h) @ '':''
     @ show_bool (rsv2 h) @ '':'' @ show_bool (rsv3 h)"

definition exec_readTillMsg ::
  "choice \<Rightarrow> rt_pc \<Rightarrow> header \<Rightarrow> error option \<Rightarrow> sys \<Rightarrow> (act \<times> sys) option" where
  "exec_readTillMsg ch pc h err s =
     (case ch of
        ChTau \<Rightarrow>
          (case pc of
             RT_Top \<Rightarrow> Some (Call (F_readHeader RH_Acquire) (F_readTillMsg RT_Wait h err), s)
           | RT_Wait \<Rightarrow> None
           | RT_Got \<Rightarrow>
               if err \<noteq> None then Some (Return (RHeader header0 err), s)
               else if rsv1 h \<or> rsv2 h \<or> rsv3 h
               then Some (Call (F_Close Enter StatusProtocolError (rsvReason h) None)
                               (F_readTillMsg RT_Fail h (Some (CloseError StatusProtocolError (rsvReason h)))), s)
               else if controlOp (opcode h)
               then Some (Call (F_handleControl HC_Start h []) (F_readTillMsg RT_WaitCtl h None), s)
               else if opcode h = opBinary \<or> opcode h = opText \<or> opcode h = opContinuation
               then Some (Return (RHeader h None), s)
               else Some (Call (F_Close Enter StatusProtocolError
                                  (''unknown opcode '' @ show_opcode (opcode h)) None)
                               (F_readTillMsg RT_Fail h
                                  (Some (CloseError StatusProtocolError
                                     (''unknown opcode '' @ show_opcode (opcode h))))), s)
           | RT_WaitCtl \<Rightarrow> None
           | RT_Fail \<Rightarrow> Some (Return (RHeader header0 err), s))
      | _ \<Rightarrow> None)"

text \<open>\<^verbatim>\<open>readLoop\<close>, lines 334 to 360. The send on \<^verbatim>\<open>c.readMsg\<close> and the receive on
  \<^verbatim>\<open>c.readMsgDone\<close> are steps of the reader on the other side; the pump's own step
  there is the closed latch.\<close>

definition exec_readLoop ::
  "choice \<Rightarrow> rl_pc \<Rightarrow> header \<Rightarrow> error option \<Rightarrow> sys \<Rightarrow> (act \<times> sys) option" where
  "exec_readLoop ch pc h err s =
     (case pc of
        RL_Top \<Rightarrow>
          (case ch of
             ChTau \<Rightarrow> Some (Call (F_readTillMsg RT_Top header0 None) (F_readLoop RL_Wait h err), s)
           | _ \<Rightarrow> None)
      | RL_Wait \<Rightarrow> None
      | RL_Got \<Rightarrow>
          (case ch of
             ChTau \<Rightarrow>
               if err \<noteq> None then Some (Call (F_close CL_Once err) (F_readLoop RL_Exit h err), s)
               else Some (Goto (F_readLoop RL_Send h None),
                          if opcode h = opContinuation \<and> fin h \<and> payloadLength h = 0
                          then releaseLock ReadMsgLock s else s)
           | _ \<Rightarrow> None)
      | RL_Send \<Rightarrow>
          (case ch of
             ChClosed \<Rightarrow> if closed (conn s) then Some (Return RUnit, s) else None
           | _ \<Rightarrow> None)
      | RL_WaitDone \<Rightarrow>
          (case ch of
             ChClosed \<Rightarrow> if closed (conn s) then Some (Return RUnit, s) else None
           | _ \<Rightarrow> None)
      | RL_Exit \<Rightarrow>
          (case ch of ChTau \<Rightarrow> Some (Return RUnit, s) | _ \<Rightarrow> None))"

subsection \<open>The deadline coordinator, ping and the read limit\<close>

text \<open>\<^verbatim>\<open>timeoutLoop\<close>, lines 205 to 234. The receives on \<^verbatim>\<open>c.setWriteTimeout\<close> and
  \<^verbatim>\<open>c.setReadTimeout\<close> are steps of the sender. \<^verbatim>\<open>Context\<close>, the one sender on
  \<^verbatim>\<open>c.setConnContext\<close>, is not part of the embedding, so the parent scope stays the
  background scope.\<close>

definition exec_timeoutLoop ::
  "choice \<Rightarrow> tl_pc \<Rightarrow> ctx \<Rightarrow> ctx \<Rightarrow> ctx \<Rightarrow> sys \<Rightarrow> (act \<times> sys) option" where
  "exec_timeoutLoop ch pc r w p s =
     (case pc of
        TL_Select \<Rightarrow>
          (case ch of
             ChClosed \<Rightarrow> if closed (conn s) then Some (Return RUnit, s) else None
           | ChReadDone \<Rightarrow>
               if cancelled s r
               then Some (Call (F_close CL_Once (Some (Errorf ''data read timed out'' (Some (CtxErr r)))))
                               (F_timeoutLoop TL_Select r w p), s)
               else None
           | ChWriteDone \<Rightarrow>
               if cancelled s w
               then Some (Call (F_close CL_Once (Some (Errorf ''data write timed out'' (Some (CtxErr w)))))
                               (F_timeoutLoop TL_Select r w p), s)
               else None
           | ChParentDone \<Rightarrow>
               if cancelled s p
               then Some (Call (F_close CL_Once (Some (Errorf ''parent context cancelled'' (Some (CtxErr p)))))
                               (F_timeoutLoop TL_Exit r w p), s)
               else None
           | _ \<Rightarrow> None)
      | TL_Exit \<Rightarrow>
          (case ch of ChTau \<Rightarrow> Some (Return RUnit, s) | _ \<Rightarrow> None))"

text \<open>\<^verbatim>\<open>ping\<close>, lines 755 to 784. The deferred function deletes the identifier from
  the map on every way out. The nonce of \<^verbatim>\<open>rand.Uint64\<close> comes with the call.\<close>

definition deletePing :: "string \<Rightarrow> sys \<Rightarrow> sys" where
  "deletePing p s = s\<lparr>conn := (conn s)\<lparr>activePings := (activePings (conn s))(p := None)\<rparr>\<rparr>"

definition exec_ping ::
  "choice \<Rightarrow> pg_pc \<Rightarrow> ctx \<Rightarrow> nat \<Rightarrow> string \<Rightarrow> nat \<Rightarrow> error option \<Rightarrow> sys \<Rightarrow> (act \<times> sys) option" where
  "exec_ping ch pc c ident p pong err s =
     (case pc of
        PG_Start \<Rightarrow>
          (case ch of
             ChTau \<Rightarrow>
               Some (Call (F_writeMessage Enter c opPing (FormatUint ident) False None)
                          (F_ping PG_Wait c ident (FormatUint ident) (nextChan s) None),
                     s\<lparr>conn := (conn s)\<lparr>activePings :=
                                   (activePings (conn s))(FormatUint ident \<mapsto> nextChan s)\<rparr>,
                       nextChan := Suc (nextChan s)\<rparr>)
           | _ \<Rightarrow> None)
      | PG_Wait \<Rightarrow> None
      | PG_AfterWM \<Rightarrow>
          (case ch of
             ChTau \<Rightarrow>
               if err \<noteq> None then Some (Return (RErr err), deletePing p s)
               else Some (Goto (F_ping PG_Select c ident p pong None), s)
           | _ \<Rightarrow> None)
      | PG_Select \<Rightarrow>
          (case ch of
             ChCtxDone \<Rightarrow>
               if cancelled s c then Some (Return (RErr (Some (CtxErr c))), deletePing p s) else None
           | ChClosed \<Rightarrow>
               if closed (conn s) then Some (Return (RErr (closeErr (conn s))), deletePing p s) else None
           | ChComm \<Rightarrow>
               if pongClosed (conn s) pong then Some (Return (RErr None), deletePing p s) else None
           | _ \<Rightarrow> None))"

definition exec_SetReadLimit :: "choice \<Rightarrow> int \<Rightarrow> sys \<Rightarrow> (act \<times> sys) option" where
  "exec_SetReadLimit ch n s =
     (case ch of
        ChTau \<Rightarrow> Some (Return RUnit, s\<lparr>conn := (conn s)\<lparr>msgReadLimit := n\<rparr>\<rparr>)
      | _ \<Rightarrow> None)"

subsection \<open>Steps of the system\<close>

text \<open>A frame that waits for a call takes the returned value into its locals.\<close>

definition resume :: "frame \<Rightarrow> retval \<Rightarrow> frame" where
  "resume k v =
     (case k of
        F_writeMessage pc c opc p held e \<Rightarrow>
          (case v of RErr e' \<Rightarrow> F_writeMessage After c opc p held e' | _ \<Rightarrow> k)
      | F_mwWrite pc w p e \<Rightarrow> (case v of RErr e' \<Rightarrow> F_mwWrite After w p e' | _ \<Rightarrow> k)
      | F_mwClose pc w e \<Rightarrow> (case v of RErr e' \<Rightarrow> F_mwClose After w e' | _ \<Rightarrow> k)
      | F_Reader pc c x e \<Rightarrow> (case v of RReader x' e' \<Rightarrow> F_Reader RR_After c x' e' | _ \<Rightarrow> k)
      | F_readLoop pc h e \<Rightarrow>
          (case v of RHeader h' e' \<Rightarrow> F_readLoop RL_Got h' e' | _ \<Rightarrow> k)
      | F_readTillMsg pc h e \<Rightarrow>
          (case v of
             RHeader h' e' \<Rightarrow> F_readTillMsg RT_Got h' e'
           | RUnit \<Rightarrow> (if pc = RT_WaitCtl then F_readTillMsg RT_Top h e else k)
           | _ \<Rightarrow> k)
      | F_writePong pc p c e \<Rightarrow> (case v of RErr e' \<Rightarrow> F_writePong After p c e' | _ \<Rightarrow> k)
      | F_Close pc code reason e \<Rightarrow> (case v of RErr e' \<Rightarrow> F_Close After code reason e' | _ \<Rightarrow> k)
      | F_writeClose pc p cerr c e \<Rightarrow>
          (case v of
             RErr e' \<Rightarrow> F_writeClose WC_AfterWM p cerr c e'
           | RUnit \<Rightarrow> F_writeClose WC_AfterClose p cerr c e
           | _ \<Rightarrow> k)
      | F_ping pc c ident p pong e \<Rightarrow>
          (case v of RErr e' \<Rightarrow> F_ping PG_AfterWM c ident p pong e' | _ \<Rightarrow> k)
      | _ \<Rightarrow> k)"

definition exec :: "choice \<Rightarrow> frame \<Rightarrow> sys \<Rightarrow> (act \<times> sys) option" where
  "exec ch f s =
     (case f of
        F_close pc e \<Rightarrow> exec_close ch pc e s
      | F_writeFrame pc c h p e \<Rightarrow> exec_writeFrame ch pc c h p e s
      | F_writeMessage pc c opc p held e \<Rightarrow> exec_writeMessage ch pc c opc p held e s
      | F_Writer c typ \<Rightarrow> exec_Writer ch c typ s
      | F_mwWrite pc w p e \<Rightarrow> exec_mwWrite ch pc w p e s
      | F_mwClose pc w e \<Rightarrow> exec_mwClose ch pc w e s
      | F_reader pc c ce \<Rightarrow> exec_reader ch pc c ce s
      | F_Reader pc c x e \<Rightarrow> exec_Reader ch pc c x e s
      | F_mrRead pc r k d e \<Rightarrow> exec_mrRead ch pc r k d e s
      | F_readLoop pc h e \<Rightarrow> exec_readLoop ch pc h e s
      | F_readTillMsg pc h e \<Rightarrow> exec_readTillMsg ch pc h e s
      | F_readHeader pc \<Rightarrow> exec_readHeader ch pc s
      | F_handleControl pc h b \<Rightarrow> exec_handleControl ch pc h b s
      | F_writePong pc p c e \<Rightarrow> exec_writePong ch pc p c e s
      | F_Close pc code reason e \<Rightarrow> exec_Close ch pc code reason e s
      | F_writeClose pc p cerr c e \<Rightarrow> exec_writeClose ch pc p cerr c e s
      | F_ping pc c ident p pong e \<Rightarrow> exec_ping ch pc c ident p pong e s
      | F_timeoutLoop pc r w p \<Rightarrow> exec_timeoutLoop ch pc r w p s
      | F_SetReadLimit n \<Rightarrow> exec_SetReadLimit ch n s
      | F_panic m \<Rightarrow> None)"

text \<open>A caller starts an operation of the interface. The writer and the reader it works
  on are the ones its earlier calls returned (\<open>mw\<close>, \<open>rd\<close>); a read through the
  byte-limited adapter reaches \<^verbatim>\<open>messageReader.read\<close> of the reader inside (the adapter's
  own code is not in the file).\<close>

definition startFrame :: "tid \<Rightarrow> api \<Rightarrow> sys \<Rightarrow> frame option" where
  "startFrame t a s =
     (case a of
        CallWriter c typ \<Rightarrow> Some (F_Writer c typ)
      | CallWrite c typ p \<Rightarrow> Some (F_writeMessage Enter c typ p False None)
      | CallMwWrite p \<Rightarrow> (case mw s t of None \<Rightarrow> None | Some w \<Rightarrow> Some (F_mwWrite Enter w p None))
      | CallMwClose \<Rightarrow> (case mw s t of None \<Rightarrow> None | Some w \<Rightarrow> Some (F_mwClose Enter w None))
      | CallReader c \<Rightarrow> Some (F_Reader RR_Enter c None None)
      | CallMrRead k \<Rightarrow>
          (case rd s t of None \<Rightarrow> None | Some l \<Rightarrow> Some (F_mrRead MR_Start (lr_r l) k [] None))
      | CallPing c ident \<Rightarrow>
          if ident < 2 ^ 64 then Some (F_ping PG_Start c ident [] 0 None) else None
      | CallClose code reason \<Rightarrow> Some (F_Close Enter code reason None)
      | CallSetReadLimit n \<Rightarrow> Some (F_SetReadLimit n))"

text \<open>When the outermost call of a caller returns, the result is kept, and with it the
  writer or reader as the call left it.\<close>

definition finish :: "tid \<Rightarrow> retval \<Rightarrow> sys \<Rightarrow> sys" where
  "finish t v s =
     (case v of
        RWriter (Some w) e \<Rightarrow> s\<lparr>res := (res s)(t \<mapsto> v), mw := (mw s)(t \<mapsto> w)\<rparr>
      | RWrite w n e \<Rightarrow> s\<lparr>res := (res s)(t \<mapsto> v), mw := (mw s)(t \<mapsto> w)\<rparr>
      | RMClose w e \<Rightarrow> s\<lparr>res := (res s)(t \<mapsto> v), mw := (mw s)(t \<mapsto> w)\<rparr>
      | RLimited (Some (typ, l)) e \<Rightarrow> s\<lparr>res := (res s)(t \<mapsto> v), rd := (rd s)(t \<mapsto> l)\<rparr>
      | RRead r n d e \<Rightarrow>
          s\<lparr>res := (res s)(t \<mapsto> v),
            rd := (case rd s t of None \<Rightarrow> rd s | Some l \<Rightarrow> (rd s)(t \<mapsto> l\<lparr>lr_r := r\<rparr>))\<rparr>
      | _ \<Rightarrow> s\<lparr>res := (res s)(t \<mapsto> v)\<rparr>)"

definition apply_act :: "tid \<Rightarrow> act \<Rightarrow> frame list \<Rightarrow> sys \<Rightarrow> sys" where
  "apply_act t a st s =
     (case a of
        Goto f \<Rightarrow> s\<lparr>thr := (thr s)(t := f # st)\<rparr>
      | Call g k \<Rightarrow> s\<lparr>thr := (thr s)(t := g # k # st)\<rparr>
      | Return v \<Rightarrow>
          (case st of
             [] \<Rightarrow> finish t v (s\<lparr>thr := (thr s)(t := [])\<rparr>)
           | k # st' \<Rightarrow> s\<lparr>thr := (thr s)(t := resume k v # st')\<rparr>))"

text \<open>An event: a caller with nothing running starts an operation, a scope other than
  the background scope is cancelled or runs out, or a goroutine takes a step.\<close>

definition step :: "event \<Rightarrow> sys \<Rightarrow> sys option" where
  "step ev s =
     (case ev of
        Start t a \<Rightarrow>
          if t = pump \<or> t = timer \<or> thr s t \<noteq> [] then None
          else (case startFrame t a s of
                  None \<Rightarrow> None
                | Some f \<Rightarrow> Some (s\<lparr>thr := (thr s)(t := [f])\<rparr>))
      | Cancel c \<Rightarrow> if c = Background then None else Some (cancel c s)
      | Run t ch \<Rightarrow>
          (case thr s t of
             [] \<Rightarrow> None
           | f # st \<Rightarrow>
               (case exec ch f s of
                  None \<Rightarrow> None
                | Some (a, s') \<Rightarrow> Some (apply_act t a st s'))))"

fun run :: "event list \<Rightarrow> sys \<Rightarrow> sys option" where
  "run [] s = Some s"
| "run (ev # evs) s = (case step ev s of None \<Rightarrow> None | Some s' \<Rightarrow> run evs s')"


section \<open>What the statements speak of\<close>

text \<open>The part of the connection that the close coordinator writes: the state of \<^verbatim>\<open>closeOnce\<close>, the terminal error, the closed latch, and how often the byte stream has been closed.\<close>

definition terminal :: "sys \<Rightarrow> once \<times> error option \<times> bool \<times> nat" where
  "terminal s = (closeOnce (conn s), closeErr (conn s), closed (conn s), closerCalls (conn s))"

text \<open>A goroutine standing at a point where another goroutine's step completes a send or receive with it: readLoop at its send on \<^verbatim>\<open>readMsg\<close> or its receive on \<^verbatim>\<open>readMsgDone\<close>, timeoutLoop at its \<^verbatim>\<open>select\<close>. Only such a frame is changed by a step of somebody else.\<close>

definition parked :: "frame \<Rightarrow> bool" where
  "parked f =
     (case f of
        F_readLoop pc h e \<Rightarrow> pc = RL_Send \<or> pc = RL_WaitDone
      | F_timeoutLoop pc r w p \<Rightarrow> pc = TL_Select
      | _ \<Rightarrow> False)"

text \<open>Frames of readLoop and timeoutLoop.\<close>

definition loopFrame :: "frame \<Rightarrow> bool" where
  "loopFrame f = (case f of F_readLoop pc h e \<Rightarrow> True | F_timeoutLoop pc r w p \<Rightarrow> True | _ \<Rightarrow> False)"

text \<open>Frames of \<^verbatim>\<open>c.close\<close>.\<close>

definition isClose :: "frame \<Rightarrow> bool" where
  "isClose f = (case f of F_close pc e \<Rightarrow> True | _ \<Rightarrow> False)"

text \<open>What one goroutine's function step may do to the goroutines: results and handles stay, and a stack changes at most in its parked top frame, which is a frame of readLoop or timeoutLoop afterwards.\<close>

definition peer :: "sys \<Rightarrow> sys \<Rightarrow> bool" where
  "peer s s' \<longleftrightarrow>
     res s' = res s \<and> mw s' = mw s \<and> rd s' = rd s \<and>
     (\<forall>t. thr s' t = thr s t \<or>
          (thr s t \<noteq> [] \<and> thr s' t \<noteq> [] \<and> parked (hd (thr s t)) \<and> loopFrame (hd (thr s' t)) \<and>
           tl (thr s' t) = tl (thr s t)))"

text \<open>Outside \<^verbatim>\<open>c.close\<close> no step jumps into a frame of \<^verbatim>\<open>c.close\<close>, no frame of it waits for a call, and a call of it starts at \<^verbatim>\<open>closeOnce.Do\<close>.\<close>

definition act_ok :: "act \<Rightarrow> bool" where
  "act_ok a =
     (case a of
        Goto f \<Rightarrow> \<not> isClose f
      | Call g k \<Rightarrow> \<not> isClose k \<and> (\<forall>pc e. g = F_close pc e \<longrightarrow> pc = CL_Once)
      | Return v \<Rightarrow> True)"

text \<open>The program point of \<^verbatim>\<open>c.close\<close> a goroutine stands at, if its top frame is one.\<close>

definition closeTop :: "sys \<Rightarrow> tid \<Rightarrow> close_pc option" where
  "closeTop s t = (case thr s t of F_close pc e # st \<Rightarrow> Some pc | _ \<Rightarrow> None)"

text \<open>The goroutine is inside the function that \<^verbatim>\<open>closeOnce.Do\<close> runs.\<close>

definition inBody :: "sys \<Rightarrow> tid \<Rightarrow> bool" where
  "inBody s t \<longleftrightarrow> closeTop s t \<noteq> None \<and> closeTop s t \<noteq> Some CL_Once"

text \<open>What \<^verbatim>\<open>closeOnce\<close> says about the terminal error: before the first close there is none and the latch has not fired; from then on there is one and the byte stream has been closed once.\<close>

definition onceInv :: "sys \<Rightarrow> bool" where
  "onceInv s \<longleftrightarrow>
     (case closeOnce (conn s) of
        NotStarted \<Rightarrow> closeErr (conn s) = None \<and> \<not> closed (conn s) \<and> closerCalls (conn s) = 0
      | Running \<Rightarrow> closeErr (conn s) \<noteq> None \<and> closerCalls (conn s) = 1
      | Finished \<Rightarrow> closeErr (conn s) \<noteq> None \<and> closerCalls (conn s) = 1 \<and> closed (conn s))"

text \<open>The invariant of the close coordinator: at most one goroutine is inside the body of \<^verbatim>\<open>closeOnce.Do\<close>, exactly while \<^verbatim>\<open>closeOnce\<close> is running; frames of \<^verbatim>\<open>c.close\<close> are top frames; the slots are poisoned only after the latch has fired.\<close>

definition closeSound :: "sys \<Rightarrow> bool" where
  "closeSound s \<longleftrightarrow> onceInv s
     \<and> (\<forall>t. inBody s t \<longrightarrow> closeOnce (conn s) = Running)
     \<and> (\<forall>t t'. inBody s t \<longrightarrow> inBody s t' \<longrightarrow> t = t')
     \<and> (\<forall>t. \<forall>f \<in> set (tl (thr s t)). \<not> isClose f)
     \<and> (\<forall>t. closeTop s t = Some CL_PoisonR \<or> closeTop s t = Some CL_PoisonW \<longrightarrow> closed (conn s))"

text \<open>The goroutine an event belongs to.\<close>

definition actor :: "event \<Rightarrow> tid option" where
  "actor ev = (case ev of Start t a \<Rightarrow> Some t | Cancel c \<Rightarrow> None | Run t ch \<Rightarrow> Some t)"

text \<open>None of the events is a step or a call of goroutine \<open>t\<close>.\<close>

definition others :: "tid \<Rightarrow> event list \<Rightarrow> bool" where
  "others t evs \<longleftrightarrow> (\<forall>ev \<in> set evs. actor ev \<noteq> Some t)"

text \<open>The top frame of \<open>t\<close> is not parked.\<close>

definition quiet :: "sys \<Rightarrow> tid \<Rightarrow> bool" where
  "quiet s t = (case thr s t of [] \<Rightarrow> True | f # st \<Rightarrow> \<not> parked f)"

text \<open>What belongs to one caller: its stack, its last result, its writer and its reader.\<close>

definition view :: "sys \<Rightarrow> tid \<Rightarrow> frame list \<times> retval option \<times> messageWriter option \<times> limitedReader option" where
  "view s t = (thr s t, res s t, mw s t, rd s t)"

text \<open>A run in which the first header read of the pump fails, up to the pump's call of \<^verbatim>\<open>c.close\<close> (line 338).\<close>

definition tr_readfail :: "event list" where
  "tr_readfail = [Run pump ChTau, Run pump ChTau, Run pump ChLock, Run pump (ChHdr (Inl (IOErr 0))),
     Run pump ChTau, Run pump ChTau]"

text \<open>Lines 701 to 703: the payload and the next mask position after the XOR transform.\<close>

definition unmask :: "header \<Rightarrow> messageReader \<Rightarrow> bytes \<Rightarrow> nat \<times> bytes" where
  "unmask h r b = (if masked h then fastXOR (maskKey h) (maskPos r) b else (maskPos r, b))"

text \<open>The reader after lines 700 to 703: the remaining payload length is reduced by the bytes read.\<close>

definition consumed :: "header \<Rightarrow> messageReader \<Rightarrow> bytes \<Rightarrow> messageReader" where
  "consumed h r b =
     r\<lparr>r_h := Some (h\<lparr>payloadLength := payloadLength h - int (length b)\<rparr>), maskPos := fst (unmask h r b)\<rparr>"








text \<open>The message-read limit after a run from \<^verbatim>\<open>init\<close>, and the bound of the reader a caller holds after it.\<close>

definition readLimitAt :: "event list \<Rightarrow> int option" where
  "readLimitAt evs = (case run evs (init False) of None \<Rightarrow> None | Some s \<Rightarrow> Some (msgReadLimit (conn s)))"

definition readerLeft :: "event list \<Rightarrow> tid \<Rightarrow> int option" where
  "readerLeft evs t =
     (case run evs (init False) of
        None \<Rightarrow> None
      | Some s \<Rightarrow> (case rd s t of None \<Rightarrow> None | Some l \<Rightarrow> Some (lr_left l)))"

text \<open>The pump reads the header \<open>h\<close> of a data frame and offers it on \<^verbatim>\<open>readMsg\<close>.\<close>

definition pump_delivers :: "header \<Rightarrow> event list" where
  "pump_delivers h = [Run pump ChTau, Run pump ChTau, Run pump ChLock, Run pump (ChHdr (Inr h)),
     Run pump ChTau, Run pump ChTau]"

text \<open>A caller calls \<^verbatim>\<open>Reader\<close> and waits for a message; another caller sets the read limit to 4; a text frame arrives and \<^verbatim>\<open>reader\<close> returns it to \<^verbatim>\<open>Reader\<close> (\<open>tr_limit_recv\<close>), which loads the limit and returns (\<open>tr_limit\<close>).\<close>

definition tr_limit_recv :: "event list" where
  "tr_limit_recv = [Start 2 (CallReader (UserCtx 1)), Run 2 ChTau, Run 2 ChLock,
       Start 3 (CallSetReadLimit 4), Run 3 ChTau]
     @ pump_delivers (header0\<lparr>fin := True, opcode := opText, payloadLength := 5\<rparr>)
     @ [Run 2 ChComm]"

definition tr_limit :: "event list" where
  "tr_limit = tr_limit_recv @ [Run 2 ChTau, Run 2 ChTau]"

text \<open>A caller holds the read-message slot from its acquire in \<^verbatim>\<open>reader\<close> (line 605) until its reader reaches the end of the message (line 718): it is inside \<^verbatim>\<open>reader\<close> past the acquire, or it owns a reader that has not returned the end-of-stream sentinel.\<close>

definition holdsReadMsg :: "sys \<Rightarrow> tid \<Rightarrow> bool" where
  "holdsReadMsg s t \<longleftrightarrow>
     (\<exists>f \<in> set (thr s t).
        case f of F_reader pc c e \<Rightarrow> pc \<noteq> RD_Acquire | F_mrRead pc r k d e \<Rightarrow> \<not> eofed r | _ \<Rightarrow> False)
     \<or> (thr s t = [] \<and> (case rd s t of None \<Rightarrow> False | Some l \<Rightarrow> \<not> eofed (lr_r l)))"

text \<open>The peer sends a text message in two frames, \<^verbatim>\<open>ab\<close> without FIN and an empty continuation frame with FIN. Caller 2 opens a reader and reads \<^verbatim>\<open>ab\<close>; the pump reads the second header and releases the read-message slot (line 345); caller 3 calls \<^verbatim>\<open>Reader\<close>.\<close>

definition tr_two_readers :: "event list" where
  "tr_two_readers =
     [Start 2 (CallReader (UserCtx 1)), Run 2 ChTau, Run 2 ChLock]
     @ pump_delivers (header0\<lparr>opcode := opText, payloadLength := 2\<rparr>)
     @ [Run 2 ChComm, Run 2 ChTau, Run 2 ChTau,
        Start 2 (CallMrRead 2), Run 2 ChTau, Run 2 ChComm, Run 2 ChLock, Run 2 (ChRead ''ab'' None),
        Run 2 ChComm, Run 2 ChComm]
     @ pump_delivers (header0\<lparr>fin := True\<rparr>)
     @ [Start 3 (CallReader (UserCtx 2)), Run 3 ChTau, Run 3 ChLock]"

text \<open>The first header read fails, the pump closes the connection and leaves, and timeoutLoop leaves on the closed latch.\<close>

definition tr_closed :: "event list" where
  "tr_closed = tr_readfail
     @ [Run pump (ChIO None), Run pump ChTau, Run pump ChLock, Run pump ChLock, Run pump ChTau,
        Run timer ChClosed]"


text \<open>A text frame of two bytes with FIN, and a read of it up to \<^verbatim>\<open>io.ReadFull\<close>.\<close>

definition hdr_text_fin :: header where
  "hdr_text_fin = header0\<lparr>fin := True, opcode := opText, payloadLength := 2\<rparr>"

definition tr_read_full :: "event list" where
  "tr_read_full = [Start 2 (CallReader (UserCtx 1)), Run 2 ChTau, Run 2 ChLock]
     @ pump_delivers hdr_text_fin
     @ [Run 2 ChComm, Run 2 ChTau, Run 2 ChTau, Start 2 (CallMrRead 10), Run 2 ChTau, Run 2 ChComm, Run 2 ChLock]"




text \<open>What a run from \<^verbatim>\<open>init\<close> leaves: the result of a caller, the stack of a goroutine, a slot, the closed latch, the terminal error, the bytes written.\<close>

definition resAt :: "event list \<Rightarrow> tid \<Rightarrow> retval option" where
  "resAt evs t = (case run evs (init False) of None \<Rightarrow> None | Some s \<Rightarrow> res s t)"

definition thrAt :: "event list \<Rightarrow> tid \<Rightarrow> frame list option" where
  "thrAt evs t = (case run evs (init False) of None \<Rightarrow> None | Some s \<Rightarrow> Some (thr s t))"

definition lockAt :: "event list \<Rightarrow> lock \<Rightarrow> bool option" where
  "lockAt evs l = (case run evs (init False) of None \<Rightarrow> None | Some s \<Rightarrow> Some (locks (conn s) l))"




text \<open>The steps of \<^verbatim>\<open>c.close\<close> in timeoutLoop: the stream is closed, the latch fires, the two frame slots are poisoned.\<close>

definition tr_deadline_close :: "event list" where
  "tr_deadline_close = [Run timer (ChIO None), Run timer ChTau, Run timer ChLock, Run timer ChLock]"

text \<open>A caller reads the two bytes of a FIN text frame; its scope runs out when \<^verbatim>\<open>io.ReadFull\<close> has returned, and timeoutLoop closes the connection before the read removes its timeout.\<close>

definition tr_read_last :: "event list" where
  "tr_read_last = tr_read_full
     @ [Run 2 (ChRead ''ab'' None), Cancel (UserCtx 1), Run timer ChReadDone]
     @ tr_deadline_close @ [Run 2 ChComm]"






subsection \<open>Call stacks\<close>

text \<open>The functions on the way of a close handshake: \<^verbatim>\<open>c.close\<close>, \<^verbatim>\<open>Close\<close>, \<^verbatim>\<open>writeClose\<close> and \<^verbatim>\<open>writeMessage\<close>; \<open>kindOf\<close> is the one a frame belongs to.\<close>

datatype fkind = KClose | KCloseCall | KWriteClose | KWriteMessage | KOther

definition kindOf :: "frame \<Rightarrow> fkind" where
  "kindOf f =
     (case f of
        F_close pc e \<Rightarrow> KClose
      | F_Close pc code reason e \<Rightarrow> KCloseCall
      | F_writeClose pc p cerr c e \<Rightarrow> KWriteClose
      | F_writeMessage pc c opc p held e \<Rightarrow> KWriteMessage
      | _ \<Rightarrow> KOther)"

text \<open>What a frame requires of its place in a call stack, given the function of the frame above it (none above the top frame) and whether \<^verbatim>\<open>closeOnce.Do\<close> has completed. A frame that waits for a call has a frame of the callee above it: \<^verbatim>\<open>Close\<close> waits for \<^verbatim>\<open>writeClose\<close>, which waits for \<^verbatim>\<open>writeMessage\<close> and then for \<^verbatim>\<open>c.close\<close>. A frame of \<^verbatim>\<open>reader\<close> or \<^verbatim>\<open>messageReader.read\<close> that goes on after \<^verbatim>\<open>Close\<close> has \<^verbatim>\<open>Close\<close> above it, or the close has completed. A frame at a point after \<^verbatim>\<open>c.close\<close> has returned is there only when the close has completed. The frames that start a call of \<^verbatim>\<open>Close\<close> or \<^verbatim>\<open>writeClose\<close> are top frames.\<close>

definition need :: "bool \<Rightarrow> fkind option \<Rightarrow> frame \<Rightarrow> bool" where
  "need F a f =
     (case f of
        F_Close pc code reason e \<Rightarrow>
          (case pc of Enter \<Rightarrow> a = None | Wait \<Rightarrow> a = Some KWriteClose | After \<Rightarrow> F)
      | F_writeClose pc p cerr c e \<Rightarrow>
          (case pc of
             WC_Start \<Rightarrow> a = None
           | WC_Wait1 \<Rightarrow> a = Some KWriteMessage
           | WC_AfterWM \<Rightarrow> a = None
           | WC_Wait2 \<Rightarrow> a = Some KClose
           | WC_AfterClose \<Rightarrow> F)
      | F_reader pc c e \<Rightarrow> (pc = RD_AfterClose \<longrightarrow> F \<or> a = Some KCloseCall)
      | F_mrRead pc r k d e \<Rightarrow> (pc = MR_AfterClose \<longrightarrow> F \<or> a = Some KCloseCall)
      | _ \<Rightarrow> True)"







section \<open>Facts about the steps\<close>

subsection \<open>Every function's step: the terminal state, the other goroutines, the frames\<close>

lemma isClose_simps [simp]:
  "isClose (F_close pc e) = True"
  "isClose (F_writeFrame wpc c h p e) = False"
  "isClose (F_writeMessage cpc c opc p held e) = False"
  "isClose (F_Writer c typ) = False"
  "isClose (F_mwWrite cpc w p e) = False"
  "isClose (F_mwClose cpc w e) = False"
  "isClose (F_reader rpc c ce) = False"
  "isClose (F_Reader rrpc c x e) = False"
  "isClose (F_mrRead mpc r k d e) = False"
  "isClose (F_readLoop lpc h e) = False"
  "isClose (F_readTillMsg tpc h e) = False"
  "isClose (F_readHeader hpc) = False"
  "isClose (F_handleControl kpc h b) = False"
  "isClose (F_writePong cpc p c e) = False"
  "isClose (F_Close cpc code reason e) = False"
  "isClose (F_writeClose qpc p cerr c e) = False"
  "isClose (F_ping gpc c ident p pong e) = False"
  "isClose (F_timeoutLoop upc r1 w1 p1) = False"
  "isClose (F_SetReadLimit n) = False"
  "isClose (F_panic m) = False"
  by (simp_all add: isClose_def)

lemma terminal_simps [simp]:
  "terminal (setLock l b s) = terminal s"
  "terminal (releaseLock l s) = terminal s"
  "terminal (emit x s) = terminal s"
  "terminal (cancel c s) = terminal s"
  "terminal (deletePing p s) = terminal s"
  "terminal (s\<lparr>thr := th\<rparr>) = terminal s"
  "terminal (s\<lparr>nextCtx := v4\<rparr>) = terminal s"
  "terminal (s\<lparr>nextChan := v5\<rparr>) = terminal s"
  "terminal (s\<lparr>res := v6\<rparr>) = terminal s"
  "terminal (s\<lparr>mw := v7\<rparr>) = terminal s"
  "terminal (s\<lparr>rd := v8\<rparr>) = terminal s"
  "terminal (s\<lparr>conn := (conn s)\<lparr>activePings := v1\<rparr>\<rparr>) = terminal s"
  "terminal (s\<lparr>conn := (conn s)\<lparr>pongClosed := v2\<rparr>\<rparr>) = terminal s"
  "terminal (s\<lparr>conn := (conn s)\<lparr>msgReadLimit := v3\<rparr>\<rparr>) = terminal s"
  by (simp_all add: terminal_def setLock_def releaseLock_def emit_def cancel_def deletePing_def)

lemma peer_refl [simp]: "peer s s"
  by (simp add: peer_def)

lemma peer_simps [simp]:
  "peer s (setLock l b s') = peer s s'"
  "peer s (releaseLock l s') = peer s s'"
  "peer s (emit x s') = peer s s'"
  "peer s (cancel c s') = peer s s'"
  "peer s (deletePing p s') = peer s s'"
  "peer s (s'\<lparr>conn := cn\<rparr>) = peer s s'"
  "peer s (s'\<lparr>nextCtx := v4\<rparr>) = peer s s'"
  "peer s (s'\<lparr>nextChan := v5\<rparr>) = peer s s'"
  by (simp_all add: peer_def setLock_def releaseLock_def emit_def cancel_def deletePing_def)

lemma terminal_setWriteTimeout: "setWriteTimeout c s = Some s' \<Longrightarrow> terminal s' = terminal s"
  by (auto simp: setWriteTimeout_def split: list.splits frame.splits tl_pc.splits)

lemma terminal_setReadTimeout: "setReadTimeout c s = Some s' \<Longrightarrow> terminal s' = terminal s"
  by (auto simp: setReadTimeout_def split: list.splits frame.splits tl_pc.splits)

lemma terminal_recvReadMsg: "recvReadMsg s = Some (h, s') \<Longrightarrow> terminal s' = terminal s"
  by (auto simp: recvReadMsg_def split: list.splits frame.splits rl_pc.splits)

lemma terminal_sendReadMsgDone: "sendReadMsgDone s = Some s' \<Longrightarrow> terminal s' = terminal s"
  by (auto simp: sendReadMsgDone_def split: list.splits frame.splits rl_pc.splits)

lemma terminal_acquireLock: "acquireLock ch c l s = Some (e, s') \<Longrightarrow> terminal s' = terminal s"
  by (auto simp: acquireLock_def split: choice.splits if_splits)

lemmas terminal_dest = terminal_acquireLock terminal_setWriteTimeout terminal_setReadTimeout
  terminal_recvReadMsg terminal_sendReadMsgDone

lemma setWriteTimeout_Some:
  "setWriteTimeout c s = Some s' \<Longrightarrow>
   \<exists>r w p st. thr s timer = F_timeoutLoop TL_Select r w p # st \<and>
     s' = s\<lparr>thr := (thr s)(timer := F_timeoutLoop TL_Select r c p # st)\<rparr>"
  by (auto simp: setWriteTimeout_def split: list.splits frame.splits tl_pc.splits)

lemma setReadTimeout_Some:
  "setReadTimeout c s = Some s' \<Longrightarrow>
   \<exists>r w p st. thr s timer = F_timeoutLoop TL_Select r w p # st \<and>
     s' = s\<lparr>thr := (thr s)(timer := F_timeoutLoop TL_Select c w p # st)\<rparr>"
  by (auto simp: setReadTimeout_def split: list.splits frame.splits tl_pc.splits)

lemma recvReadMsg_Some:
  "recvReadMsg s = Some (h, s') \<Longrightarrow>
   \<exists>e st. thr s pump = F_readLoop RL_Send h e # st \<and>
     s' = s\<lparr>thr := (thr s)(pump := F_readLoop RL_WaitDone h e # st)\<rparr>"
  by (auto simp: recvReadMsg_def split: list.splits frame.splits rl_pc.splits)

lemma sendReadMsgDone_Some:
  "sendReadMsgDone s = Some s' \<Longrightarrow>
   \<exists>h e st. thr s pump = F_readLoop RL_WaitDone h e # st \<and>
     s' = s\<lparr>thr := (thr s)(pump := F_readLoop RL_Top h e # st)\<rparr>"
  by (auto simp: sendReadMsgDone_def split: list.splits frame.splits rl_pc.splits)

lemma peer_swap:
  "thr s t = f # st \<Longrightarrow> parked f \<Longrightarrow> loopFrame f' \<Longrightarrow> peer s (s\<lparr>thr := (thr s)(t := f' # st)\<rparr>)"
  by (simp add: peer_def)

lemma loopFrame_simps [simp]:
  "loopFrame (F_timeoutLoop upc r w p)"
  "loopFrame (F_readLoop lpc h e)"
  by (simp_all add: loopFrame_def)

lemma parked_simps [simp]:
  "parked (F_timeoutLoop TL_Select r w p)"
  "parked (F_readLoop RL_Send h e)"
  "parked (F_readLoop RL_WaitDone h e)"
  by (simp_all add: parked_def)

lemma peer_setWriteTimeout: "setWriteTimeout c s = Some s' \<Longrightarrow> peer s s'"
  by (drule setWriteTimeout_Some) (auto intro!: peer_swap)

lemma peer_setReadTimeout: "setReadTimeout c s = Some s' \<Longrightarrow> peer s s'"
  by (drule setReadTimeout_Some) (auto intro!: peer_swap)

lemma peer_recvReadMsg: "recvReadMsg s = Some (h, s') \<Longrightarrow> peer s s'"
  by (drule recvReadMsg_Some) (auto intro!: peer_swap)

lemma peer_sendReadMsgDone: "sendReadMsgDone s = Some s' \<Longrightarrow> peer s s'"
  by (drule sendReadMsgDone_Some) (auto intro!: peer_swap)

lemma peer_acquireLock: "acquireLock ch c l s = Some (e, s') \<Longrightarrow> peer s s'"
  by (auto simp: acquireLock_def split: choice.splits if_splits)

lemmas peer_dest = peer_acquireLock peer_setWriteTimeout peer_setReadTimeout
  peer_recvReadMsg peer_sendReadMsgDone

lemma terminal_writeFrame:
  "exec_writeFrame ch pc c h p e s = Some (a, s') \<Longrightarrow> terminal s' = terminal s"
  by (auto simp: exec_writeFrame_def Let_def split: wf_pc.splits choice.splits option.splits if_splits dest: terminal_dest)

lemma peer_writeFrame:
  "exec_writeFrame ch pc c h p e s = Some (a, s') \<Longrightarrow> peer s s'"
  by (auto simp: exec_writeFrame_def Let_def split: wf_pc.splits choice.splits option.splits if_splits dest: peer_dest)

lemma act_ok_writeFrame:
  "exec_writeFrame ch pc c h p e s = Some (a, s') \<Longrightarrow> act_ok a"
  by (auto simp: exec_writeFrame_def Let_def act_ok_def split: wf_pc.splits choice.splits option.splits if_splits)

lemma terminal_writeMessage:
  "exec_writeMessage ch pc c opc p held e s = Some (a, s') \<Longrightarrow> terminal s' = terminal s"
  by (auto simp: exec_writeMessage_def Let_def split: call_pc.splits choice.splits option.splits if_splits dest: terminal_dest)

lemma peer_writeMessage:
  "exec_writeMessage ch pc c opc p held e s = Some (a, s') \<Longrightarrow> peer s s'"
  by (auto simp: exec_writeMessage_def Let_def split: call_pc.splits choice.splits option.splits if_splits dest: peer_dest)

lemma act_ok_writeMessage:
  "exec_writeMessage ch pc c opc p held e s = Some (a, s') \<Longrightarrow> act_ok a"
  by (auto simp: exec_writeMessage_def Let_def act_ok_def split: call_pc.splits choice.splits option.splits if_splits)

lemma terminal_Writer:
  "exec_Writer ch c typ s = Some (a, s') \<Longrightarrow> terminal s' = terminal s"
  by (auto simp: exec_Writer_def Let_def split: option.splits if_splits dest: terminal_dest)

lemma peer_Writer:
  "exec_Writer ch c typ s = Some (a, s') \<Longrightarrow> peer s s'"
  by (auto simp: exec_Writer_def Let_def split: option.splits if_splits dest: peer_dest)

lemma act_ok_Writer:
  "exec_Writer ch c typ s = Some (a, s') \<Longrightarrow> act_ok a"
  by (auto simp: exec_Writer_def Let_def act_ok_def split: option.splits if_splits)

lemma terminal_mwWrite:
  "exec_mwWrite ch pc w p e s = Some (a, s') \<Longrightarrow> terminal s' = terminal s"
  by (auto simp: exec_mwWrite_def Let_def split: call_pc.splits choice.splits if_splits dest: terminal_dest)

lemma peer_mwWrite:
  "exec_mwWrite ch pc w p e s = Some (a, s') \<Longrightarrow> peer s s'"
  by (auto simp: exec_mwWrite_def Let_def split: call_pc.splits choice.splits if_splits dest: peer_dest)

lemma act_ok_mwWrite:
  "exec_mwWrite ch pc w p e s = Some (a, s') \<Longrightarrow> act_ok a"
  by (auto simp: exec_mwWrite_def Let_def act_ok_def split: call_pc.splits choice.splits if_splits)

lemma terminal_mwClose:
  "exec_mwClose ch pc w e s = Some (a, s') \<Longrightarrow> terminal s' = terminal s"
  by (auto simp: exec_mwClose_def Let_def split: call_pc.splits choice.splits if_splits dest: terminal_dest)

lemma peer_mwClose:
  "exec_mwClose ch pc w e s = Some (a, s') \<Longrightarrow> peer s s'"
  by (auto simp: exec_mwClose_def Let_def split: call_pc.splits choice.splits if_splits dest: peer_dest)

lemma act_ok_mwClose:
  "exec_mwClose ch pc w e s = Some (a, s') \<Longrightarrow> act_ok a"
  by (auto simp: exec_mwClose_def Let_def act_ok_def split: call_pc.splits choice.splits if_splits)

lemma terminal_reader:
  "exec_reader ch pc c ce s = Some (a, s') \<Longrightarrow> terminal s' = terminal s"
  by (auto simp: exec_reader_def Let_def split: rd_pc.splits choice.splits option.splits if_splits dest: terminal_dest)

lemma peer_reader:
  "exec_reader ch pc c ce s = Some (a, s') \<Longrightarrow> peer s s'"
  by (auto simp: exec_reader_def Let_def split: rd_pc.splits choice.splits option.splits if_splits dest: peer_dest)

lemma act_ok_reader:
  "exec_reader ch pc c ce s = Some (a, s') \<Longrightarrow> act_ok a"
  by (auto simp: exec_reader_def Let_def act_ok_def split: rd_pc.splits choice.splits option.splits if_splits)

lemma terminal_Reader:
  "exec_Reader ch pc c x e s = Some (a, s') \<Longrightarrow> terminal s' = terminal s"
  by (auto simp: exec_Reader_def Let_def split: rr_pc.splits choice.splits option.splits if_splits dest: terminal_dest)

lemma peer_Reader:
  "exec_Reader ch pc c x e s = Some (a, s') \<Longrightarrow> peer s s'"
  by (auto simp: exec_Reader_def Let_def split: rr_pc.splits choice.splits option.splits if_splits dest: peer_dest)

lemma act_ok_Reader:
  "exec_Reader ch pc c x e s = Some (a, s') \<Longrightarrow> act_ok a"
  by (auto simp: exec_Reader_def Let_def act_ok_def split: rr_pc.splits choice.splits option.splits if_splits)

lemma terminal_mrRead:
  "exec_mrRead ch pc r k d e s = Some (a, s') \<Longrightarrow> terminal s' = terminal s"
  by (auto simp: exec_mrRead_def Let_def split: mr_pc.splits choice.splits option.splits if_splits dest: terminal_dest)

lemma peer_mrRead:
  "exec_mrRead ch pc r k d e s = Some (a, s') \<Longrightarrow> peer s s'"
  by (auto simp: exec_mrRead_def Let_def split: mr_pc.splits choice.splits option.splits if_splits dest: peer_dest)

lemma act_ok_mrRead:
  "exec_mrRead ch pc r k d e s = Some (a, s') \<Longrightarrow> act_ok a"
  by (auto simp: exec_mrRead_def Let_def act_ok_def split: mr_pc.splits choice.splits option.splits if_splits)

lemma terminal_readLoop:
  "exec_readLoop ch pc h e s = Some (a, s') \<Longrightarrow> terminal s' = terminal s"
  by (auto simp: exec_readLoop_def Let_def split: rl_pc.splits choice.splits if_splits dest: terminal_dest)

lemma peer_readLoop:
  "exec_readLoop ch pc h e s = Some (a, s') \<Longrightarrow> peer s s'"
  by (auto simp: exec_readLoop_def Let_def split: rl_pc.splits choice.splits if_splits dest: peer_dest)

lemma act_ok_readLoop:
  "exec_readLoop ch pc h e s = Some (a, s') \<Longrightarrow> act_ok a"
  by (auto simp: exec_readLoop_def Let_def act_ok_def split: rl_pc.splits choice.splits if_splits)

lemma terminal_readTillMsg:
  "exec_readTillMsg ch pc h e s = Some (a, s') \<Longrightarrow> terminal s' = terminal s"
  by (auto simp: exec_readTillMsg_def Let_def split: rt_pc.splits choice.splits if_splits dest: terminal_dest)

lemma peer_readTillMsg:
  "exec_readTillMsg ch pc h e s = Some (a, s') \<Longrightarrow> peer s s'"
  by (auto simp: exec_readTillMsg_def Let_def split: rt_pc.splits choice.splits if_splits dest: peer_dest)

lemma act_ok_readTillMsg:
  "exec_readTillMsg ch pc h e s = Some (a, s') \<Longrightarrow> act_ok a"
  by (auto simp: exec_readTillMsg_def Let_def act_ok_def split: rt_pc.splits choice.splits if_splits)

lemma terminal_readHeader:
  "exec_readHeader ch pc s = Some (a, s') \<Longrightarrow> terminal s' = terminal s"
  by (auto simp: exec_readHeader_def Let_def split: rh_pc.splits choice.splits option.splits sum.splits if_splits dest: terminal_dest)

lemma peer_readHeader:
  "exec_readHeader ch pc s = Some (a, s') \<Longrightarrow> peer s s'"
  by (auto simp: exec_readHeader_def Let_def split: rh_pc.splits choice.splits option.splits sum.splits if_splits dest: peer_dest)

lemma act_ok_readHeader:
  "exec_readHeader ch pc s = Some (a, s') \<Longrightarrow> act_ok a"
  by (auto simp: exec_readHeader_def Let_def act_ok_def split: rh_pc.splits choice.splits option.splits sum.splits if_splits)

lemma terminal_handleControl:
  "exec_handleControl ch pc h b s = Some (a, s') \<Longrightarrow> terminal s' = terminal s"
  by (auto simp: exec_handleControl_def Let_def split: hc_pc.splits choice.splits option.splits if_splits opcode.splits sum.splits dest: terminal_dest)

lemma peer_handleControl:
  "exec_handleControl ch pc h b s = Some (a, s') \<Longrightarrow> peer s s'"
  by (auto simp: exec_handleControl_def Let_def split: hc_pc.splits choice.splits option.splits if_splits opcode.splits sum.splits dest: peer_dest)

lemma act_ok_handleControl:
  "exec_handleControl ch pc h b s = Some (a, s') \<Longrightarrow> act_ok a"
  by (auto simp: exec_handleControl_def Let_def act_ok_def split: hc_pc.splits choice.splits option.splits if_splits opcode.splits sum.splits)

lemma terminal_writePong:
  "exec_writePong ch pc p c e s = Some (a, s') \<Longrightarrow> terminal s' = terminal s"
  by (auto simp: exec_writePong_def Let_def split: call_pc.splits choice.splits dest: terminal_dest)

lemma peer_writePong:
  "exec_writePong ch pc p c e s = Some (a, s') \<Longrightarrow> peer s s'"
  by (auto simp: exec_writePong_def Let_def split: call_pc.splits choice.splits dest: peer_dest)

lemma act_ok_writePong:
  "exec_writePong ch pc p c e s = Some (a, s') \<Longrightarrow> act_ok a"
  by (auto simp: exec_writePong_def Let_def act_ok_def split: call_pc.splits choice.splits)

lemma terminal_Close:
  "exec_Close ch pc code reason e s = Some (a, s') \<Longrightarrow> terminal s' = terminal s"
  by (auto simp: exec_Close_def Let_def split: call_pc.splits choice.splits sum.splits dest: terminal_dest)

lemma peer_Close:
  "exec_Close ch pc code reason e s = Some (a, s') \<Longrightarrow> peer s s'"
  by (auto simp: exec_Close_def Let_def split: call_pc.splits choice.splits sum.splits dest: peer_dest)

lemma act_ok_Close:
  "exec_Close ch pc code reason e s = Some (a, s') \<Longrightarrow> act_ok a"
  by (auto simp: exec_Close_def Let_def act_ok_def split: call_pc.splits choice.splits sum.splits)

lemma terminal_writeClose:
  "exec_writeClose ch pc p cerr c e s = Some (a, s') \<Longrightarrow> terminal s' = terminal s"
  by (auto simp: exec_writeClose_def Let_def split: wc_pc.splits choice.splits dest: terminal_dest)

lemma peer_writeClose:
  "exec_writeClose ch pc p cerr c e s = Some (a, s') \<Longrightarrow> peer s s'"
  by (auto simp: exec_writeClose_def Let_def split: wc_pc.splits choice.splits dest: peer_dest)

lemma act_ok_writeClose:
  "exec_writeClose ch pc p cerr c e s = Some (a, s') \<Longrightarrow> act_ok a"
  by (auto simp: exec_writeClose_def Let_def act_ok_def split: wc_pc.splits choice.splits)

lemma terminal_ping:
  "exec_ping ch pc c ident p pong e s = Some (a, s') \<Longrightarrow> terminal s' = terminal s"
  by (auto simp: exec_ping_def Let_def split: pg_pc.splits choice.splits if_splits dest: terminal_dest)

lemma peer_ping:
  "exec_ping ch pc c ident p pong e s = Some (a, s') \<Longrightarrow> peer s s'"
  by (auto simp: exec_ping_def Let_def split: pg_pc.splits choice.splits if_splits dest: peer_dest)

lemma act_ok_ping:
  "exec_ping ch pc c ident p pong e s = Some (a, s') \<Longrightarrow> act_ok a"
  by (auto simp: exec_ping_def Let_def act_ok_def split: pg_pc.splits choice.splits if_splits)

lemma terminal_timeoutLoop:
  "exec_timeoutLoop ch pc r w p s = Some (a, s') \<Longrightarrow> terminal s' = terminal s"
  by (auto simp: exec_timeoutLoop_def Let_def split: tl_pc.splits choice.splits if_splits dest: terminal_dest)

lemma peer_timeoutLoop:
  "exec_timeoutLoop ch pc r w p s = Some (a, s') \<Longrightarrow> peer s s'"
  by (auto simp: exec_timeoutLoop_def Let_def split: tl_pc.splits choice.splits if_splits dest: peer_dest)

lemma act_ok_timeoutLoop:
  "exec_timeoutLoop ch pc r w p s = Some (a, s') \<Longrightarrow> act_ok a"
  by (auto simp: exec_timeoutLoop_def Let_def act_ok_def split: tl_pc.splits choice.splits if_splits)

lemma terminal_SetReadLimit:
  "exec_SetReadLimit ch n s = Some (a, s') \<Longrightarrow> terminal s' = terminal s"
  by (auto simp: exec_SetReadLimit_def Let_def split: choice.splits dest: terminal_dest)

lemma peer_SetReadLimit:
  "exec_SetReadLimit ch n s = Some (a, s') \<Longrightarrow> peer s s'"
  by (auto simp: exec_SetReadLimit_def Let_def split: choice.splits dest: peer_dest)

lemma act_ok_SetReadLimit:
  "exec_SetReadLimit ch n s = Some (a, s') \<Longrightarrow> act_ok a"
  by (auto simp: exec_SetReadLimit_def Let_def act_ok_def split: choice.splits)

lemma peer_close: "exec_close ch pc e s = Some (a, s') \<Longrightarrow> peer s s'"
  by (auto simp: exec_close_def split: close_pc.splits once.splits choice.splits if_splits)

lemma peer_exec: "exec ch f s = Some (a, s') \<Longrightarrow> peer s s'"
  by (cases f)
     (auto simp: exec_def
       dest: peer_close peer_writeFrame peer_writeMessage peer_Writer peer_mwWrite
         peer_mwClose peer_reader peer_Reader peer_mrRead peer_readLoop
         peer_readTillMsg peer_readHeader peer_handleControl peer_writePong
         peer_Close peer_writeClose peer_ping peer_timeoutLoop peer_SetReadLimit)

lemma terminal_exec:
  "exec ch f s = Some (a, s') \<Longrightarrow> \<not> isClose f \<Longrightarrow> terminal s' = terminal s"
  by (cases f)
     (auto simp: exec_def
       dest: terminal_writeFrame terminal_writeMessage terminal_Writer terminal_mwWrite
         terminal_mwClose terminal_reader terminal_Reader terminal_mrRead terminal_readLoop
         terminal_readTillMsg terminal_readHeader terminal_handleControl terminal_writePong
         terminal_Close terminal_writeClose terminal_ping terminal_timeoutLoop terminal_SetReadLimit)

lemma act_ok_exec:
  "exec ch f s = Some (a, s') \<Longrightarrow> \<not> isClose f \<Longrightarrow> act_ok a"
  by (cases f)
     (auto simp: exec_def
       dest: act_ok_writeFrame act_ok_writeMessage act_ok_Writer act_ok_mwWrite
         act_ok_mwClose act_ok_reader act_ok_Reader act_ok_mrRead act_ok_readLoop
         act_ok_readTillMsg act_ok_readHeader act_ok_handleControl act_ok_writePong
         act_ok_Close act_ok_writeClose act_ok_ping act_ok_timeoutLoop act_ok_SetReadLimit)

lemma exec_close_cases:
  assumes "exec_close ch pc e s = Some (a, s1)"
  shows "(pc = CL_Once \<and> closeOnce (conn s) = Finished \<and> a = Return RUnit \<and> s1 = s)
       \<or> (pc = CL_Once \<and> closeOnce (conn s) = NotStarted \<and>
           (\<exists>cerr. ch = ChIO cerr \<and> a = Goto (F_close CL_Latch e) \<and>
              s1 = s\<lparr>conn := (conn s)\<lparr>closeOnce := Running,
                     closerCalls := Suc (closerCalls (conn s)),
                     closeErr := Some (Errorf ''websocket closed'' (if e \<noteq> None then e else cerr))\<rparr>\<rparr>))
       \<or> (pc = CL_Latch \<and> a = Goto (F_close CL_PoisonR e) \<and> s1 = s\<lparr>conn := (conn s)\<lparr>closed := True\<rparr>\<rparr>)
       \<or> (pc = CL_PoisonR \<and> a = Goto (F_close CL_PoisonW e) \<and> s1 = setLock ReadFrameLock True s)
       \<or> (pc = CL_PoisonW \<and> a = Return RUnit \<and>
           s1 = (setLock WriteFrameLock True s)\<lparr>conn := (conn (setLock WriteFrameLock True s))\<lparr>closeOnce := Finished\<rparr>\<rparr>)"
  using assms
  by (auto simp: exec_close_def split: close_pc.splits once.splits choice.splits if_splits)

lemma isClose_resume: "\<not> isClose k \<Longrightarrow> \<not> isClose (resume k v)"
  by (cases k) (auto simp: resume_def split: retval.splits)

lemma conn_finish [simp]: "conn (finish t v s) = conn s"
  by (auto simp: finish_def split: retval.splits option.splits)

lemma thr_finish [simp]: "thr (finish t v s) = thr s"
  by (auto simp: finish_def split: retval.splits option.splits)

lemma conn_apply_act [simp]: "conn (apply_act t a st s) = conn s"
  by (auto simp: apply_act_def split: act.splits list.splits)

lemma thr_apply_act:
  "thr (apply_act t a st s) =
     (thr s)(t := (case a of Goto f \<Rightarrow> f # st | Call g k \<Rightarrow> g # k # st
                   | Return v \<Rightarrow> (case st of [] \<Rightarrow> [] | k # st' \<Rightarrow> resume k v # st')))"
  by (auto simp: apply_act_def split: act.splits list.splits)

lemma onceInv_terminal: "terminal s' = terminal s \<Longrightarrow> onceInv s' = onceInv s"
  by (auto simp: onceInv_def terminal_def split: once.splits)

lemma parked_not_close: "parked f \<Longrightarrow> \<not> isClose f"
  by (cases f) (simp_all add: parked_def)

lemma loopFrame_not_close: "loopFrame f \<Longrightarrow> \<not> isClose f"
  by (cases f) (simp_all add: loopFrame_def)

lemma closeTop_Cons: "thr s t = f # st \<Longrightarrow> closeTop s t = (case f of F_close pc e \<Rightarrow> Some pc | _ \<Rightarrow> None)"
  by (simp add: closeTop_def)

lemma closeTop_not_close: "thr s t = f # st \<Longrightarrow> \<not> isClose f \<Longrightarrow> closeTop s t = None"
  by (cases f) (simp_all add: closeTop_def)

lemma closeTop_Nil: "thr s t = [] \<Longrightarrow> closeTop s t = None"
  by (simp add: closeTop_def)

lemma peer_thr:
  assumes "peer s s1"
  shows "tl (thr s1 t) = tl (thr s t) \<and> closeTop s1 t = closeTop s t"
proof -
  from assms have "thr s1 t = thr s t \<or>
      (thr s t \<noteq> [] \<and> thr s1 t \<noteq> [] \<and> parked (hd (thr s t)) \<and> loopFrame (hd (thr s1 t)) \<and>
       tl (thr s1 t) = tl (thr s t))"
    unfolding peer_def by blast
  then show ?thesis
  proof
    assume "thr s1 t = thr s t"
    then show ?thesis by (simp add: closeTop_def)
  next
    assume a: "thr s t \<noteq> [] \<and> thr s1 t \<noteq> [] \<and> parked (hd (thr s t)) \<and> loopFrame (hd (thr s1 t)) \<and>
       tl (thr s1 t) = tl (thr s t)"
    then obtain f st f1 st1 where "thr s t = f # st" "thr s1 t = f1 # st1"
      by (cases "thr s t"; cases "thr s1 t") auto
    with a have "closeTop s t = None" "closeTop s1 t = None" "tl (thr s1 t) = tl (thr s t)"
      by (auto intro: closeTop_not_close dest: parked_not_close loopFrame_not_close)
    then show ?thesis by simp
  qed
qed

subsection \<open>The invariant of the close coordinator\<close>

lemma startFrame_not_close: "startFrame t a s = Some f \<Longrightarrow> \<not> isClose f"
  by (auto simp: startFrame_def split: api.splits option.splits if_splits)

lemma closeSound_init: "closeSound (init cl)"
  by (auto simp: closeSound_def onceInv_def inBody_def closeTop_def init_def init_conn_def pump_def timer_def)

lemma step_Run:
  assumes "step (Run t ch) s = Some s'"
  obtains f st a s1 where "thr s t = f # st" "exec ch f s = Some (a, s1)" "s' = apply_act t a st s1"
  using assms by (auto simp: step_def split: list.splits option.splits)

lemma closeSoundD1: "closeSound s \<Longrightarrow> onceInv s"
  unfolding closeSound_def by (elim conjE)

lemma closeSoundD2: "closeSound s \<Longrightarrow> inBody s t \<Longrightarrow> closeOnce (conn s) = Running"
  unfolding closeSound_def by (elim conjE) (erule allE [of _ t], erule (1) mp)

lemma closeSoundD3: "closeSound s \<Longrightarrow> inBody s t \<Longrightarrow> inBody s t' \<Longrightarrow> t = t'"
  unfolding closeSound_def by (elim conjE) (erule allE [of "\<lambda>t. \<forall>t'. inBody s t \<longrightarrow> inBody s t' \<longrightarrow> t = t'" t], erule allE [of _ t'], simp)

lemma closeSoundD4: "closeSound s \<Longrightarrow> x \<in> set (tl (thr s t)) \<Longrightarrow> \<not> isClose x"
  unfolding closeSound_def by (elim conjE) (erule allE [of "\<lambda>t. \<forall>f \<in> set (tl (thr s t)). \<not> isClose f" t], simp)

lemma closeSoundD5:
  "closeSound s \<Longrightarrow> closeTop s t = Some CL_PoisonR \<or> closeTop s t = Some CL_PoisonW \<Longrightarrow> closed (conn s)"
  unfolding closeSound_def
  by (elim conjE)
     (erule allE [of "\<lambda>t. closeTop s t = Some CL_PoisonR \<or> closeTop s t = Some CL_PoisonW \<longrightarrow> closed (conn s)" t], simp)

lemma closeSoundI:
  assumes "onceInv s" and "\<And>t. inBody s t \<Longrightarrow> closeOnce (conn s) = Running"
    and "\<And>t t'. inBody s t \<Longrightarrow> inBody s t' \<Longrightarrow> t = t'"
    and "\<And>t x. x \<in> set (tl (thr s t)) \<Longrightarrow> \<not> isClose x"
    and "\<And>t. closeTop s t = Some CL_PoisonR \<or> closeTop s t = Some CL_PoisonW \<Longrightarrow> closed (conn s)"
  shows "closeSound s"
  unfolding closeSound_def
proof (intro conjI allI impI ballI)
  show "onceInv s" by (rule assms(1))
  show "closeOnce (conn s) = Running" if "inBody s t" for t using that by (rule assms(2))
  show "t = t'" if "inBody s t" "inBody s t'" for t t' using that by (rule assms(3))
  show "\<not> isClose x" if "x \<in> set (tl (thr s t))" for t x using that by (rule assms(4))
  show "closed (conn s)" if "closeTop s t = Some CL_PoisonR \<or> closeTop s t = Some CL_PoisonW" for t
    using that by (rule assms(5))
qed

lemma closeSound_cong:
  assumes closeSound: "closeSound s" and tm: "terminal s' = terminal s"
    and ct: "\<And>t. closeTop s' t = closeTop s t \<or> (closeTop s t = None \<and> closeTop s' t = Some CL_Once)"
    and tls: "\<And>t x. x \<in> set (tl (thr s' t)) \<Longrightarrow> \<not> isClose x"
  shows "closeSound s'"
proof (rule closeSoundI)
  show "onceInv s'" using closeSoundD1 [OF closeSound] onceInv_terminal [OF tm] by simp
  have ib: "inBody s' t = inBody s t" for t
    using ct [of t] by (cases "closeTop s t") (auto simp: inBody_def)
  have c: "closeOnce (conn s') = closeOnce (conn s)" "closed (conn s') = closed (conn s)"
    using tm by (simp_all add: terminal_def)
  show "closeOnce (conn s') = Running" if "inBody s' t" for t
    using closeSoundD2 [OF closeSound, of t] that ib c by simp
  show "t = t'" if "inBody s' t" "inBody s' t'" for t t'
    using closeSoundD3 [OF closeSound, of t t'] that ib by simp
  show "\<not> isClose x" if "x \<in> set (tl (thr s' t))" for t x using that by (rule tls)
  show "closed (conn s')" if "closeTop s' t = Some CL_PoisonR \<or> closeTop s' t = Some CL_PoisonW" for t
  proof -
    from that ct [of t] have "closeTop s t = Some CL_PoisonR \<or> closeTop s t = Some CL_PoisonW"
      by auto
    then show ?thesis using closeSoundD5 [OF closeSound] c by simp
  qed
qed

lemma new_top:
  assumes ok: "act_ok a" and st: "\<forall>x \<in> set st. \<not> isClose x"
  shows "(closeTop (apply_act t a st s1) t = None \<or> closeTop (apply_act t a st s1) t = Some CL_Once)
       \<and> (\<forall>x \<in> set (tl (thr (apply_act t a st s1) t)). \<not> isClose x)"
proof (cases a)
  case (Goto g)
  then have "thr (apply_act t a st s1) t = g # st" by (simp add: thr_apply_act)
  moreover have "\<not> isClose g" using ok Goto by (simp add: act_ok_def)
  ultimately show ?thesis using st by (simp add: closeTop_not_close)
next
  case (Call g k)
  then have "thr (apply_act t a st s1) t = g # k # st" by (simp add: thr_apply_act)
  moreover have "\<not> isClose k" "\<forall>pc e. g = F_close pc e \<longrightarrow> pc = CL_Once"
    using ok Call by (simp_all add: act_ok_def)
  ultimately show ?thesis using st by (cases g) (auto simp: closeTop_def)
next
  case (Return v)
  show ?thesis
  proof (cases st)
    case Nil
    then show ?thesis using Return by (simp add: thr_apply_act closeTop_def)
  next
    case (Cons k st')
    then have "\<not> isClose (resume k v)" using st by (simp add: isClose_resume)
    moreover have "thr (apply_act t a st s1) t = resume k v # st'"
      using Return Cons by (simp add: thr_apply_act)
    ultimately show ?thesis using st Cons by (simp add: closeTop_not_close)
  qed
qed

lemma closeSound_other:
  assumes closeSound: "closeSound s" and top: "thr s t = f # st" and ex: "exec ch f s = Some (a, s1)"
    and nc: "\<not> isClose f"
  shows "closeSound (apply_act t a st s1)"
proof (rule closeSound_cong [OF closeSound])
  let ?s' = "apply_act t a st s1"
  have p: "peer s s1" by (rule peer_exec [OF ex])
  show "terminal ?s' = terminal s"
    using terminal_exec [OF ex nc] by (simp add: terminal_def)
  have ok: "act_ok a" by (rule act_ok_exec [OF ex nc])
  have st: "\<forall>x \<in> set st. \<not> isClose x" using closeSoundD4 [OF closeSound, of _ t] top by simp
  have nb: "closeTop s t = None" using top nc by (rule closeTop_not_close)
  note nt = new_top [OF ok st, of t s1]
  show "closeTop ?s' t' = closeTop s t' \<or> (closeTop s t' = None \<and> closeTop ?s' t' = Some CL_Once)" for t'
  proof (cases "t' = t")
    case True then show ?thesis using nb nt by auto
  next
    case False
    then have "closeTop ?s' t' = closeTop s1 t'" by (simp add: closeTop_def thr_apply_act)
    then show ?thesis using peer_thr [OF p, of t'] by simp
  qed
  show "\<not> isClose x" if "x \<in> set (tl (thr ?s' t'))" for t' x
  proof (cases "t' = t")
    case True then show ?thesis using nt that by simp
  next
    case False
    then have "tl (thr ?s' t') = tl (thr s t')"
      using peer_thr [OF p, of t'] by (simp add: thr_apply_act)
    then show ?thesis using closeSoundD4 [OF closeSound, of x t'] that by simp
  qed
qed

lemma thr_close: "exec_close ch pc e s = Some (a, s1) \<Longrightarrow> thr s1 = thr s"
  by (auto simp: exec_close_def setLock_def split: close_pc.splits once.splits choice.splits if_splits)

lemma closeTop_return:
  assumes "\<forall>x \<in> set st. \<not> isClose x"
  shows "closeTop (apply_act t (Return v) st s0) t = None"
proof (cases st)
  case Nil then show ?thesis by (simp add: thr_apply_act closeTop_def)
next
  case (Cons k st')
  then have "\<not> isClose (resume k v)" using assms by (simp add: isClose_resume)
  moreover have "thr (apply_act t (Return v) st s0) t = resume k v # st'"
    using Cons by (simp add: thr_apply_act)
  ultimately show ?thesis by (rule closeTop_not_close [rotated])
qed

lemma closeTop_goto: "closeTop (apply_act t (Goto (F_close pc e)) st s0) t = Some pc"
  by (simp add: thr_apply_act closeTop_def)

lemma tl_act:
  assumes "\<forall>x \<in> set st. \<not> isClose x" and "a = Return v \<or> a = Goto g"
  shows "\<forall>x \<in> set (tl (thr (apply_act t a st s0) t)). \<not> isClose x"
  using assms by (auto simp: thr_apply_act split: list.splits)

lemma closeSound_close:
  assumes closeSound: "closeSound s" and top: "thr s t = F_close pc e # st"
    and ex: "exec_close ch pc e s = Some (a, s1)"
  shows "closeSound (apply_act t a st s1)"
proof -
  let ?s' = "apply_act t a st s1"
  have st: "\<forall>x \<in> set st. \<not> isClose x" using closeSoundD4 [OF closeSound, of _ t] top by simp
  have ct: "closeTop s t = Some pc" using top by (simp add: closeTop_def)
  have ci: "onceInv s" by (rule closeSoundD1 [OF closeSound])
  have th: "thr s1 = thr s" by (rule thr_close [OF ex])
  have oth: "thr ?s' t' = thr s t'" if "t' \<noteq> t" for t'
    using that th by (simp add: thr_apply_act)
  have octop: "closeTop ?s' t' = closeTop s t'" if "t' \<noteq> t" for t'
    using oth [OF that] by (simp add: closeTop_def)
  have notrun: "pc = CL_Once \<longrightarrow> closeOnce (conn s) \<noteq> Running"
    using exec_close_cases [OF ex] by auto
  have nob: "\<not> inBody s t'" if "t' \<noteq> t" for t'
  proof
    assume b: "inBody s t'"
    then have r: "closeOnce (conn s) = Running" by (rule closeSoundD2 [OF closeSound])
    with notrun have "pc \<noteq> CL_Once" by auto
    then have "inBody s t" using ct by (simp add: inBody_def)
    then have "t' = t" using b closeSoundD3 [OF closeSound] by blast
    with that show False by simp
  qed
  have nob': "\<not> inBody ?s' t'" if "t' \<noteq> t" for t'
    using nob [OF that] octop [OF that] by (simp add: inBody_def)
  have main: "onceInv ?s'
      \<and> (inBody ?s' t \<longrightarrow> closeOnce (conn ?s') = Running)
      \<and> (closeTop ?s' t = Some CL_PoisonR \<or> closeTop ?s' t = Some CL_PoisonW \<longrightarrow> closed (conn ?s'))
      \<and> (\<forall>x \<in> set (tl (thr ?s' t)). \<not> isClose x)"
  proof -
    from exec_close_cases [OF ex]
    consider
      (fin) "pc = CL_Once" "closeOnce (conn s) = Finished" "a = Return RUnit" "s1 = s"
    | (first) cerr where "pc = CL_Once" "closeOnce (conn s) = NotStarted" "ch = ChIO cerr"
        "a = Goto (F_close CL_Latch e)"
        "s1 = s\<lparr>conn := (conn s)\<lparr>closeOnce := Running,
                       closerCalls := Suc (closerCalls (conn s)),
                       closeErr := Some (Errorf ''websocket closed'' (if e \<noteq> None then e else cerr))\<rparr>\<rparr>"
    | (latch) "pc = CL_Latch" "a = Goto (F_close CL_PoisonR e)" "s1 = s\<lparr>conn := (conn s)\<lparr>closed := True\<rparr>\<rparr>"
    | (pr) "pc = CL_PoisonR" "a = Goto (F_close CL_PoisonW e)" "s1 = setLock ReadFrameLock True s"
    | (pw) "pc = CL_PoisonW" "a = Return RUnit"
        "s1 = (setLock WriteFrameLock True s)\<lparr>conn := (conn (setLock WriteFrameLock True s))\<lparr>closeOnce := Finished\<rparr>\<rparr>"
      by blast
    then show ?thesis
    proof cases
      case fin
      have "closeTop ?s' t = None" unfolding fin by (rule closeTop_return [OF st])
      moreover have "onceInv ?s'" using ci fin by (simp add: onceInv_def)
      moreover note tl_act [OF st, of a RUnit _ t s1]
      ultimately show ?thesis using fin by (simp add: inBody_def)
    next
      case first
      have "closeTop ?s' t = Some CL_Latch" unfolding first by (rule closeTop_goto)
      moreover have "onceInv ?s'" using ci first by (simp add: onceInv_def)
      moreover have "closeOnce (conn ?s') = Running" using first by simp
      moreover note tl_act [OF st, of a _ "F_close CL_Latch e" t s1]
      ultimately show ?thesis using first by (simp add: inBody_def)
    next
      case latch
      have r: "closeOnce (conn s) = Running"
        using closeSoundD2 [OF closeSound, of t] ct latch by (simp add: inBody_def)
      have "closeTop ?s' t = Some CL_PoisonR" unfolding latch by (rule closeTop_goto)
      moreover have "onceInv ?s'" using ci latch r by (simp add: onceInv_def)
      moreover have "closeOnce (conn ?s') = Running" "closed (conn ?s')" using latch r by simp_all
      moreover note tl_act [OF st, of a _ "F_close CL_PoisonR e" t s1]
      ultimately show ?thesis using latch by (simp add: inBody_def)
    next
      case pr
      have r: "closeOnce (conn s) = Running"
        using closeSoundD2 [OF closeSound, of t] ct pr by (simp add: inBody_def)
      have cl: "closed (conn s)" using closeSoundD5 [OF closeSound, of t] ct pr by simp
      have "closeTop ?s' t = Some CL_PoisonW" unfolding pr by (rule closeTop_goto)
      moreover have "onceInv ?s'" using ci pr r by (simp add: onceInv_def setLock_def)
      moreover have "closeOnce (conn ?s') = Running" "closed (conn ?s')"
        using pr r cl by (simp_all add: setLock_def)
      moreover note tl_act [OF st, of a _ "F_close CL_PoisonW e" t s1]
      ultimately show ?thesis using pr by (simp add: inBody_def)
    next
      case pw
      have r: "closeOnce (conn s) = Running"
        using closeSoundD2 [OF closeSound, of t] ct pw by (simp add: inBody_def)
      have cl: "closed (conn s)" using closeSoundD5 [OF closeSound, of t] ct pw by simp
      have "closeTop ?s' t = None" unfolding pw by (rule closeTop_return [OF st])
      moreover have "onceInv ?s'" using ci pw r cl by (simp add: onceInv_def setLock_def)
      moreover note tl_act [OF st, of a RUnit _ t s1]
      ultimately show ?thesis using pw by (simp add: inBody_def)
    qed
  qed
  show ?thesis
  proof (rule closeSoundI)
    show "onceInv ?s'" using main by simp
    show "closeOnce (conn ?s') = Running" if "inBody ?s' t'" for t'
      using that main nob' [of t'] by (cases "t' = t") auto
    show "t1 = t2" if "inBody ?s' t1" "inBody ?s' t2" for t1 t2
      using that nob' [of t1] nob' [of t2] by (cases "t1 = t"; cases "t2 = t") auto
    show "\<not> isClose x" if "x \<in> set (tl (thr ?s' t'))" for t' x
    proof (cases "t' = t")
      case True then show ?thesis using main that by simp
    next
      case False then show ?thesis using oth [OF False] closeSoundD4 [OF closeSound, of x t'] that by simp
    qed
    show "closed (conn ?s')" if "closeTop ?s' t' = Some CL_PoisonR \<or> closeTop ?s' t' = Some CL_PoisonW" for t'
    proof (cases "t' = t")
      case True then show ?thesis using main that by auto
    next
      case False
      then have "inBody ?s' t'" using that by (auto simp: inBody_def)
      then show ?thesis using nob' [OF False] by simp
    qed
  qed
qed

lemma closeSound_step:
  assumes closeSound: "closeSound s" and step: "step ev s = Some s'"
  shows "closeSound s'"
proof (cases ev)
  case (Start t a)
  then obtain f where f: "startFrame t a s = Some f" and e: "thr s t = []"
    and s': "s' = s\<lparr>thr := (thr s)(t := [f])\<rparr>"
    using step by (auto simp: step_def split: if_splits option.splits)
  have nc: "\<not> isClose f" by (rule startFrame_not_close [OF f])
  show ?thesis
  proof (rule closeSound_cong [OF closeSound])
    show "terminal s' = terminal s" using s' by simp
    show "closeTop s' t' = closeTop s t' \<or> (closeTop s t' = None \<and> closeTop s' t' = Some CL_Once)" for t'
      using s' e nc by (cases f) (auto simp: closeTop_def)
    show "\<not> isClose x" if "x \<in> set (tl (thr s' t'))" for t' x
      using that s' closeSoundD4 [OF closeSound, of x t'] by (cases "t' = t") auto
  qed
next
  case (Cancel c)
  then have s': "s' = cancel c s" using step by (auto simp: step_def split: if_splits)
  show ?thesis
  proof (rule closeSound_cong [OF closeSound])
    show "terminal s' = terminal s" using s' by simp
    show "closeTop s' t' = closeTop s t' \<or> (closeTop s t' = None \<and> closeTop s' t' = Some CL_Once)" for t'
      using s' by (simp add: closeTop_def cancel_def)
    show "\<not> isClose x" if "x \<in> set (tl (thr s' t'))" for t' x
      using that s' closeSoundD4 [OF closeSound, of x t'] by (simp add: cancel_def)
  qed
next
  case (Run t ch)
  with step obtain f st a s1 where top: "thr s t = f # st" and ex: "exec ch f s = Some (a, s1)"
    and s': "s' = apply_act t a st s1"
    by (auto elim: step_Run)
  show ?thesis
  proof (cases "isClose f")
    case False
    then show ?thesis unfolding s' using closeSound_other [OF closeSound top ex] by simp
  next
    case True
    then obtain pc e where f: "f = F_close pc e" by (cases f) simp_all
    then have "exec_close ch pc e s = Some (a, s1)" using ex by (simp add: exec_def)
    then show ?thesis unfolding s' using closeSound_close [OF closeSound] top f by simp
  qed
qed

lemma closeSound_run: "closeSound s \<Longrightarrow> run evs s = Some s' \<Longrightarrow> closeSound s'"
  by (induction evs arbitrary: s) (auto split: option.splits dest: closeSound_step)

lemma closeSound_reachable: "run evs (init cl) = Some s \<Longrightarrow> closeSound s"
  using closeSound_run [OF closeSound_init] .

subsection \<open>Steps of the other goroutines\<close>

lemma view_finish: "t' \<noteq> t \<Longrightarrow> view (finish t' v s) t = view s t"
  by (auto simp: finish_def view_def split: retval.splits option.splits)

lemma view_apply_act: "t' \<noteq> t \<Longrightarrow> view (apply_act t' a st s) t = view s t"
  by (cases a; cases st) (simp_all add: apply_act_def view_finish, simp_all add: view_def)

lemma peer_view:
  assumes "peer s s1" and "quiet s t"
  shows "view s1 t = view s t"
proof -
  from assms(1) have "thr s1 t = thr s t \<or> (thr s t \<noteq> [] \<and> parked (hd (thr s t)))"
    and "res s1 = res s" "mw s1 = mw s" "rd s1 = rd s"
    unfolding peer_def by blast+
  moreover have "\<not> (thr s t \<noteq> [] \<and> parked (hd (thr s t)))"
    using assms(2) by (cases "thr s t") (simp_all add: quiet_def)
  ultimately show ?thesis by (simp add: view_def)
qed

lemma step_view:
  assumes "step ev s = Some s'" and "actor ev \<noteq> Some t" and "quiet s t"
  shows "view s' t = view s t"
proof (cases ev)
  case (Start t' a)
  then show ?thesis using assms
    by (auto simp: step_def actor_def view_def split: if_splits option.splits)
next
  case (Cancel c)
  then show ?thesis using assms by (auto simp: step_def view_def cancel_def split: if_splits)
next
  case (Run t' ch)
  with assms(1) obtain f st a s1 where ex: "exec ch f s = Some (a, s1)" and s': "s' = apply_act t' a st s1"
    by (auto elim: step_Run)
  have "t' \<noteq> t" using Run assms(2) by (simp add: actor_def)
  then show ?thesis
    unfolding s' using peer_view [OF peer_exec [OF ex] assms(3)] by (simp add: view_apply_act)
qed

lemma quiet_view: "view s' t = view s t \<Longrightarrow> quiet s' t = quiet s t"
  by (simp add: view_def quiet_def)

lemma run_view:
  "run evs s = Some s' \<Longrightarrow> others t evs \<Longrightarrow> quiet s t \<Longrightarrow> view s' t = view s t"
proof (induction evs arbitrary: s)
  case Nil
  then show ?case by simp
next
  case (Cons ev evs)
  then obtain s1 where s1: "step ev s = Some s1" and r: "run evs s1 = Some s'"
    by (auto split: option.splits)
  have v: "view s1 t = view s t"
    using step_view [OF s1] Cons.prems by (simp add: others_def)
  have "view s' t = view s1 t"
    using Cons.IH [OF r] Cons.prems quiet_view [OF v] by (simp add: others_def)
  with v show ?case by simp
qed

subsection \<open>The terminal error\<close>

lemma step_terminal_cases:
  assumes "step ev s = Some s'"
  shows "terminal s' = terminal s
       \<or> (\<exists>t ch pc e st a s1. ev = Run t ch \<and> thr s t = F_close pc e # st \<and>
            exec_close ch pc e s = Some (a, s1) \<and> conn s' = conn s1)"
proof (cases ev)
  case (Start t' a)
  then show ?thesis using assms by (auto simp: step_def split: if_splits option.splits)
next
  case (Cancel c)
  then show ?thesis using assms by (auto simp: step_def split: if_splits)
next
  case (Run t ch)
  with assms(1) obtain f st a s1 where top: "thr s t = f # st" and ex: "exec ch f s = Some (a, s1)"
    and s': "s' = apply_act t a st s1"
    by (auto elim: step_Run)
  show ?thesis
  proof (cases "isClose f")
    case False
    then show ?thesis unfolding s' using terminal_exec [OF ex] by (simp add: terminal_def)
  next
    case True
    then obtain pc e where f: "f = F_close pc e" by (cases f) simp_all
    then have "exec_close ch pc e s = Some (a, s1)" using ex by (simp add: exec_def)
    then show ?thesis using Run top f s' by auto
  qed
qed

lemma closeErr_step:
  assumes "step ev s = Some s'" and "closeOnce (conn s) \<noteq> NotStarted"
  shows "closeErr (conn s') = closeErr (conn s) \<and> closerCalls (conn s') = closerCalls (conn s)
       \<and> closeOnce (conn s') \<noteq> NotStarted"
  using step_terminal_cases [OF assms(1)] assms(2)
  by (auto simp: terminal_def setLock_def dest!: exec_close_cases)

lemma closeErr_run:
  "run evs s = Some s' \<Longrightarrow> closeOnce (conn s) \<noteq> NotStarted \<Longrightarrow>
   closeErr (conn s') = closeErr (conn s) \<and> closerCalls (conn s') = closerCalls (conn s)
       \<and> closeOnce (conn s') \<noteq> NotStarted"
proof (induction evs arbitrary: s)
  case Nil
  then show ?case by simp
next
  case (Cons ev evs)
  then obtain s1 where s1: "step ev s = Some s1" and r: "run evs s1 = Some s'"
    by (auto split: option.splits)
  from closeErr_step [OF s1 Cons.prems(2)] Cons.IH [OF r] show ?case by simp
qed

lemma closeErr_first:
  assumes "step ev s = Some s'" and "closeErr (conn s') \<noteq> closeErr (conn s)"
  shows "\<exists>t cerr err st. ev = Run t (ChIO cerr) \<and> thr s t = F_close CL_Once err # st \<and>
       closeOnce (conn s) = NotStarted \<and> closeOnce (conn s') = Running \<and>
       closeErr (conn s') = Some (Errorf ''websocket closed'' (if err \<noteq> None then err else cerr))"
  using step_terminal_cases [OF assms(1)] assms(2)
  by (auto simp: terminal_def setLock_def dest!: exec_close_cases)

lemma onceInv_NotStarted: "onceInv s \<Longrightarrow> (closeOnce (conn s) = NotStarted) = (closeErr (conn s) = None)"
  by (auto simp: onceInv_def split: once.splits)

lemma onceInv_closed: "onceInv s \<Longrightarrow> closed (conn s) \<Longrightarrow> closeErr (conn s) \<noteq> None"
  by (auto simp: onceInv_def split: once.splits)

lemma onceInv_calls: "onceInv s \<Longrightarrow> closerCalls (conn s) \<le> 1"
  by (auto simp: onceInv_def split: once.splits)

text \<open>Claim C1. In every run from \<^verbatim>\<open>init\<close>: the byte stream is closed at most once; a terminal error, once written, is never written again, whatever close invocations follow (by a caller, by the pump for the peer, by timeoutLoop, after a failure); the step that writes it is the first close entering \<^verbatim>\<open>closeOnce.Do\<close>, and it writes the caller's error if that is not nil and the stream-close error otherwise, wrapped with ``websocket closed''; a close invocation that is not the first changes nothing of the connection; and whoever sees the closed latch finds that terminal error, which is what acquireLock returns on the latch.\<close>

theorem terminal_error_written_once:
  assumes "run evs (init cl) = Some s" and "step ev s = Some s1" and "run evs' s1 = Some s2"
  shows "closerCalls (conn s2) \<le> 1
     \<and> (closeErr (conn s) \<noteq> None \<longrightarrow> closeErr (conn s2) = closeErr (conn s))
     \<and> (closeErr (conn s) = None \<and> closeErr (conn s1) \<noteq> None \<longrightarrow>
          (\<exists>t cerr err st. ev = Run t (ChIO cerr) \<and> thr s t = F_close CL_Once err # st \<and>
             closeErr (conn s2) = Some (Errorf ''websocket closed'' (if err \<noteq> None then err else cerr))))
     \<and> (\<forall>t ch err st. ev = Run t ch \<and> thr s t = F_close CL_Once err # st \<and>
            closeOnce (conn s) \<noteq> NotStarted \<longrightarrow> conn s1 = conn s)
     \<and> (closed (conn s2) \<longrightarrow> closeErr (conn s2) \<noteq> None \<and>
            (\<forall>c l. acquireLock ChClosed c l s2 = Some (closeErr (conn s2), s2)))"
proof -
  have J0: "closeSound s" by (rule closeSound_reachable [OF assms(1)])
  have J1: "closeSound s1" by (rule closeSound_step [OF J0 assms(2)])
  have J2: "closeSound s2" by (rule closeSound_run [OF J1 assms(3)])
  have a: "closerCalls (conn s2) \<le> 1" by (rule onceInv_calls [OF closeSoundD1 [OF J2]])
  have b: "closeErr (conn s2) = closeErr (conn s)" if "closeErr (conn s) \<noteq> None"
  proof -
    have n: "closeOnce (conn s) \<noteq> NotStarted" using that onceInv_NotStarted [OF closeSoundD1 [OF J0]] by simp
    from closeErr_step [OF assms(2) n] closeErr_run [OF assms(3)] show ?thesis by simp
  qed
  have c: "\<exists>t cerr err st. ev = Run t (ChIO cerr) \<and> thr s t = F_close CL_Once err # st \<and>
             closeErr (conn s2) = Some (Errorf ''websocket closed'' (if err \<noteq> None then err else cerr))"
    if "closeErr (conn s) = None" "closeErr (conn s1) \<noteq> None"
  proof -
    from closeErr_first [OF assms(2)] that
    obtain t cerr err st where f: "ev = Run t (ChIO cerr)" "thr s t = F_close CL_Once err # st"
      "closeOnce (conn s1) = Running"
      "closeErr (conn s1) = Some (Errorf ''websocket closed'' (if err \<noteq> None then err else cerr))"
      by auto
    from closeErr_run [OF assms(3)] f have "closeErr (conn s2) = closeErr (conn s1)" by simp
    with f show ?thesis by auto
  qed
  have d: "conn s1 = conn s" if "ev = Run t ch" "thr s t = F_close CL_Once err # st"
      "closeOnce (conn s) \<noteq> NotStarted" for t ch err st
    using assms(2) that
    by (auto simp: step_def exec_def exec_close_def split: once.splits choice.splits option.splits)
  have e: "closeErr (conn s2) \<noteq> None \<and> (\<forall>c l. acquireLock ChClosed c l s2 = Some (closeErr (conn s2), s2))"
    if "closed (conn s2)"
    using that onceInv_closed [OF closeSoundD1 [OF J2]] by (simp add: acquireLock_def)
  show ?thesis using a b c d e by blast
qed

subsection \<open>Frame writes\<close>

lemma parked_simps2 [simp]:
  "\<not> parked (F_writeFrame wpc c h p e)"
  "\<not> parked (F_close cpc e)"
  "\<not> parked (F_mrRead mpc r k d e)"
  "\<not> parked (F_reader rpc c e)"
  "\<not> parked (F_ping gpc c ident q pong e)"
  "\<not> parked (F_Reader rrpc c x e)"
  by (simp_all add: parked_def)

lemma quiet_Cons: "thr s t = f # st \<Longrightarrow> \<not> parked f \<Longrightarrow> quiet s t"
  by (simp add: quiet_def)

lemma run_thr:
  "run evs s = Some s' \<Longrightarrow> others t evs \<Longrightarrow> thr s t = f # st \<Longrightarrow> \<not> parked f \<Longrightarrow> thr s' t = f # st"
  using run_view [of evs s s' t] by (simp add: view_def quiet_def)


subsection \<open>Slots\<close>

lemmas sem = step_def exec_def startFrame_def apply_act_def finish_def resume_def init_def
  init_conn_def pump_def timer_def header0_def acquireLock_def setLock_def releaseLock_def
  emit_def cancel_def deletePing_def setWriteTimeout_def setReadTimeout_def recvReadMsg_def
  sendReadMsgDone_def exec_close_def exec_writeFrame_def exec_writeMessage_def exec_Writer_def
  exec_mwWrite_def exec_mwClose_def exec_reader_def exec_Reader_def exec_mrRead_def
  exec_readLoop_def exec_readTillMsg_def exec_readHeader_def exec_handleControl_def
  exec_writePong_def exec_Close_def exec_writeClose_def exec_ping_def exec_timeoutLoop_def
  exec_SetReadLimit_def wrap_def IsOpt_def ce_bytes_def StatusProtocolError_def
  StatusNoStatusRcvd_def StatusInternalError_def maxControlFramePayload_def

text \<open>A run for C1: the header read fails, the pump closes with that error while the stream's own close fails too, and a later \<^verbatim>\<open>Writer\<close> takes the latch.\<close>

theorem terminal_error_written_once_witness:
  "\<exists>s s1 s2. run tr_readfail (init False) = Some s
     \<and> step (Run pump (ChIO (Some (IOErr 1)))) s = Some s1
     \<and> run [Run pump ChTau, Run pump ChLock, Run pump ChLock, Start 2 (CallWriter Background opText), Run 2 ChClosed] s1 = Some s2
     \<and> closeErr (conn s) = None \<and> closerCalls (conn s2) \<le> 1 \<and> closed (conn s2)
     \<and> closeErr (conn s2) = Some (Errorf ''websocket closed'' (Some (Errorf ''failed to read header'' (Some (IOErr 0)))))
     \<and> acquireLock ChClosed Background WriteMsgLock s2 = Some (closeErr (conn s2), s2)"
proof -
  have "\<exists>s s1 s2. run tr_readfail (init False) = Some s
     \<and> step (Run pump (ChIO (Some (IOErr 1)))) s = Some s1
     \<and> run [Run pump ChTau, Run pump ChLock, Run pump ChLock, Start 2 (CallWriter Background opText), Run 2 ChClosed] s1 = Some s2
     \<and> closeErr (conn s) = None \<and> closed (conn s2)
     \<and> closeErr (conn s1) = Some (Errorf ''websocket closed'' (Some (Errorf ''failed to read header'' (Some (IOErr 0)))))"
    by (simp add: tr_readfail_def sem)
  then obtain s s1 s2 where r: "run tr_readfail (init False) = Some s"
     "step (Run pump (ChIO (Some (IOErr 1)))) s = Some s1"
     "run [Run pump ChTau, Run pump ChLock, Run pump ChLock, Start 2 (CallWriter Background opText), Run 2 ChClosed] s1 = Some s2"
     and f: "closeErr (conn s) = None" "closed (conn s2)"
     "closeErr (conn s1) = Some (Errorf ''websocket closed'' (Some (Errorf ''failed to read header'' (Some (IOErr 0)))))"
    by blast
  from terminal_error_written_once [OF r] f
  have "closerCalls (conn s2) \<le> 1" "closeErr (conn s2) \<noteq> None"
    "acquireLock ChClosed Background WriteMsgLock s2 = Some (closeErr (conn s2), s2)"
    "\<exists>t cerr err st. Run pump (ChIO (Some (IOErr 1))) = Run t (ChIO cerr) \<and> thr s t = F_close CL_Once err # st \<and>
             closeErr (conn s2) = Some (Errorf ''websocket closed'' (if err \<noteq> None then err else cerr))"
    by auto
  moreover have "closeErr (conn s2) = closeErr (conn s1)"
    using closeErr_run [OF r(3)] f(3) closeErr_first [OF r(2)] f(1) by auto
  ultimately show ?thesis using r f by auto
qed

text \<open>Claim C9. Releasing a slot twice is releasing it once; after a release the slot is free; releasing a free slot changes nothing; and the release is a step that is possible in every state (here the deferred release of writeFrame).\<close>

theorem releaseLock_idempotent:
  "releaseLock l (releaseLock l s) = releaseLock l s
   \<and> \<not> locks (conn (releaseLock l s)) l
   \<and> (\<not> locks (conn s) l \<longrightarrow> releaseLock l s = s)
   \<and> (\<forall>t c h p e st. thr s t = F_writeFrame WF_Release c h p e # st \<longrightarrow> step (Run t ChTau) s \<noteq> None)"
  by (auto simp: releaseLock_def setLock_def step_def exec_def exec_writeFrame_def)

theorem releaseLock_idempotent_witness:
  "locks (conn (setLock WriteFrameLock True (init False))) WriteFrameLock
   \<and> \<not> locks (conn (init False)) WriteFrameLock
   \<and> releaseLock WriteFrameLock (releaseLock WriteFrameLock (setLock WriteFrameLock True (init False)))
     = releaseLock WriteFrameLock (setLock WriteFrameLock True (init False))
   \<and> releaseLock WriteFrameLock (init False) = init False"
  using releaseLock_idempotent [of WriteFrameLock "setLock WriteFrameLock True (init False)"]
    releaseLock_idempotent [of WriteFrameLock "init False"]
  by (simp add: setLock_def init_def init_conn_def)

subsection \<open>Reading\<close>

text \<open>Claim C5, amended. A read whose \<^verbatim>\<open>io.ReadFull\<close> returns the whole remaining payload of the frame, and which has removed the read timeout, has two ways on: the send on \<^verbatim>\<open>readMsgDone\<close>, the only one while the connection is not closed, and the closed latch, with the terminal error as result and no acknowledgement. With the send the pump goes back to the head of its loop, and the read returns: for a FIN frame it releases the read-message slot, marks the reader and returns the end-of-stream sentinel \<open>EOF\<close>; otherwise it returns no error, the reader has no current header and mask position 0, and no slot changes.\<close>

theorem read_last_byte_acknowledges:
  assumes top: "thr s t = [F_mrRead MR_ReadFull r k d0 e0]"
    and h: "r_h r = Some h"
    and rd: "step (Run t (ChRead b None)) s = Some s1"
    and last: "payloadLength h = int (length b)"
    and o1: "run evs1 s1 = Some s1'" "others t evs1"
    and dis: "step (Run t ChComm) s1' = Some s2"
    and o2: "run evs2 s2 = Some s2'" "others t evs2"
    and ack: "step (Run t ch) s2' = Some s3"
  shows "(ch = ChComm \<or> ch = ChClosed \<and> closed (conn s2'))
       \<and> (\<not> closed (conn s2') \<longrightarrow> ch = ChComm)
       \<and> thr s3 t = []
       \<and> (ch = ChClosed \<longrightarrow>
            res s3 t = Some (RRead (consumed h r b) (length b) (snd (unmask h r b)) (closeErr (conn s2'))))
       \<and> (ch = ChComm \<longrightarrow>
            (\<exists>hp ep stp. thr s2' pump = F_readLoop RL_WaitDone hp ep # stp
                \<and> thr s3 pump = F_readLoop RL_Top hp ep # stp)
          \<and> (fin h \<longrightarrow> \<not> locks (conn s3) ReadMsgLock
                \<and> res s3 t = Some (RRead ((consumed h r b)\<lparr>eofed := True\<rparr>) (length b)
                                   (snd (unmask h r b)) (Some EOF)))
          \<and> (\<not> fin h \<longrightarrow> locks (conn s3) = locks (conn s2')
                \<and> res s3 t = Some (RRead ((consumed h r b)\<lparr>maskPos := 0, r_h := None\<rparr>) (length b)
                                   (snd (unmask h r b)) None)))"
proof -
  let ?r = "consumed h r b" and ?b = "snd (unmask h r b)"
  have t1: "thr s1 t = [F_mrRead MR_Disarm r (length b) b None]"
    using top rd
    by (auto simp: step_def exec_def exec_mrRead_def apply_act_def split: if_splits)
  have t1': "thr s1' t = [F_mrRead MR_Disarm r (length b) b None]"
    by (rule run_thr [OF o1 t1]) simp
  have t2: "thr s2 t = [F_mrRead MR_Ack ?r (length b) ?b None]"
    using dis t1' h last
    by (auto simp: step_def exec_def exec_mrRead_def apply_act_def Let_def consumed_def unmask_def
        split: option.splits dest!: setReadTimeout_Some)
  have t2': "thr s2' t = [F_mrRead MR_Ack ?r (length b) ?b None]"
    by (rule run_thr [OF o2 t2]) simp
  have rh: "r_h ?r = Some (h\<lparr>payloadLength := 0\<rparr>)"
    using last by (simp add: consumed_def)
  from ack t2' rh consider
      (cl) "ch = ChClosed" "closed (conn s2')"
        "s3 = apply_act t (Return (RRead ?r (length b) ?b (closeErr (conn s2')))) [] s2'"
    | (cm) sx where "ch = ChComm" "sendReadMsgDone s2' = Some sx"
        "s3 = apply_act t (if fin h then Return (RRead (?r\<lparr>eofed := True\<rparr>) (length b) ?b (Some EOF))
                           else Return (RRead (?r\<lparr>maskPos := 0, r_h := None\<rparr>) (length b) ?b None)) []
                (if fin h then releaseLock ReadMsgLock sx else sx)"
    by (auto simp: step_def exec_def exec_mrRead_def split: choice.splits option.splits if_splits)
  then show ?thesis
  proof cases
    case cl
    then show ?thesis by (simp add: apply_act_def finish_def)
  next
    case cm
    from sendReadMsgDone_Some [OF cm(2)] obtain hp ep stp where
      p: "thr s2' pump = F_readLoop RL_WaitDone hp ep # stp"
      and sx: "sx = s2'\<lparr>thr := (thr s2')(pump := F_readLoop RL_Top hp ep # stp)\<rparr>"
      by blast
    have ne: "t \<noteq> pump" using p t2' by auto
    show ?thesis
      using cm(1) cm(3) p ne
      by (auto simp: sx apply_act_def finish_def releaseLock_def setLock_def)
  qed
qed

subsection \<open>The message writer\<close>

lemma header0_sel [simp]:
  "fin header0 = False" "rsv1 header0 = False" "rsv2 header0 = False" "rsv3 header0 = False"
  "opcode header0 = opContinuation" "payloadLength header0 = 0" "masked header0 = False"
  by (simp_all add: header0_def)










text \<open>Claim C10 as stated fails: when \<^verbatim>\<open>Reader\<close> is called the limit is 32768, and still is when the call has acquired the slot; the reader it returns is bounded by 4, the value set while the call waited for a message.\<close>

theorem reader_limit_counterexample:
  "readLimitAt [Start 2 (CallReader (UserCtx 1))] = Some 32768
   \<and> readLimitAt [Start 2 (CallReader (UserCtx 1)), Run 2 ChTau, Run 2 ChLock] = Some 32768
   \<and> readerLeft tr_limit 2 = Some 4"
  by (simp add: readLimitAt_def readerLeft_def tr_limit_def tr_limit_recv_def pump_delivers_def sem)

text \<open>Claim C3, at a failing input. After the run \<open>tr_two_readers\<close> the connection is open, caller 2 owns a reader in the middle of its message, and caller 3 has acquired the read-message slot and waits for a header: both hold the slot.\<close>

theorem two_readers_hold_slot:
  "\<exists>s. run tr_two_readers (init False) = Some s
     \<and> \<not> closed (conn s) \<and> closeOnce (conn s) = NotStarted
     \<and> holdsReadMsg s 2 \<and> holdsReadMsg s 3
     \<and> res s 2 = Some (RRead \<lparr>r_ctx = UserCtx 1, maskPos = 0, r_h = None, eofed = False\<rparr> 2 ''ab'' None)
     \<and> thr s 3 = [F_reader RD_Select (UserCtx 2) None, F_Reader RR_Wait (UserCtx 2) None None]"
  by (simp add: tr_two_readers_def pump_delivers_def holdsReadMsg_def sem)

text \<open>Claim C2, at a failing input. The connection is closed: the latch has fired, both frame slots are poisoned, pump and timeoutLoop have left. A caller with a live scope calls \<^verbatim>\<open>Writer\<close>. The \<^verbatim>\<open>select\<close> of acquireLock has two ready cases, the latch and the send into the free write-message slot; when it takes the send, \<^verbatim>\<open>Writer\<close> returns a writer and no error.\<close>

theorem Writer_succeeds_after_close:
  "\<exists>s s'. run tr_closed (init False) = Some s
     \<and> closed (conn s) \<and> closeOnce (conn s) = Finished
     \<and> locks (conn s) ReadFrameLock \<and> locks (conn s) WriteFrameLock
     \<and> thr s pump = [] \<and> thr s timer = []
     \<and> closeErr (conn s) = Some (Errorf ''websocket closed'' (Some (Errorf ''failed to read header'' (Some (IOErr 0)))))
     \<and> run [Start 2 (CallWriter (UserCtx 1) opText), Run 2 ChLock] s = Some s'
     \<and> res s' 2 = Some (RWriter (Some \<lparr>w_ctx = UserCtx 1, w_opcode = opText, w_closed = False\<rparr>) None)
     \<and> \<not> cancelled s' (UserCtx 1)"
  by (simp add: tr_closed_def tr_readfail_def sem)

subsection \<open>The read limit\<close>

lemma ret_kind:
  assumes "exec ch f s = Some (Return v, s')"
  shows "(\<forall>x e. v = RLimited (Some x) e \<longrightarrow> (\<exists>n c y z. f = F_Reader (RR_Loaded n) c y z))
       \<and> (\<forall>r n d e. v = RRead r n d e \<longrightarrow> (\<exists>pc r0 k d0 e0. f = F_mrRead pc r0 k d0 e0))"
proof (cases f)
  case (F_close pc e) then show ?thesis using assms
    by (auto simp: exec_def exec_close_def split: close_pc.splits once.splits choice.splits if_splits)
next
  case (F_writeFrame pc c h p e) then show ?thesis using assms
    by (auto simp: exec_def exec_writeFrame_def split: wf_pc.splits choice.splits option.splits if_splits)
next
  case (F_writeMessage pc c opc p held e) then show ?thesis using assms
    by (auto simp: exec_def exec_writeMessage_def split: call_pc.splits choice.splits option.splits if_splits)
next
  case (F_Writer c x) then show ?thesis using assms
    by (auto simp: exec_def exec_Writer_def split: option.splits if_splits)
next
  case (F_mwWrite pc w p e) then show ?thesis using assms
    by (auto simp: exec_def exec_mwWrite_def split: call_pc.splits choice.splits if_splits)
next
  case (F_mwClose pc w e) then show ?thesis using assms
    by (auto simp: exec_def exec_mwClose_def split: call_pc.splits choice.splits if_splits)
next
  case (F_reader pc c ce) then show ?thesis using assms
    by (auto simp: exec_def exec_reader_def split: rd_pc.splits choice.splits option.splits if_splits)
next
  case (F_Reader pc c x e) then show ?thesis using assms
    by (auto simp: exec_def exec_Reader_def split: rr_pc.splits choice.splits option.splits if_splits)
next
  case (F_mrRead pc r k d e) then show ?thesis using assms
    by (auto simp: exec_def exec_mrRead_def Let_def split: mr_pc.splits choice.splits option.splits if_splits)
next
  case (F_readLoop pc h e) then show ?thesis using assms
    by (auto simp: exec_def exec_readLoop_def split: rl_pc.splits choice.splits if_splits)
next
  case (F_readTillMsg pc h e) then show ?thesis using assms
    by (auto simp: exec_def exec_readTillMsg_def split: rt_pc.splits choice.splits if_splits)
next
  case (F_readHeader pc) then show ?thesis using assms
    by (auto simp: exec_def exec_readHeader_def split: rh_pc.splits choice.splits option.splits sum.splits if_splits)
next
  case (F_handleControl pc h b) then show ?thesis using assms
    by (auto simp: exec_def exec_handleControl_def Let_def
        split: hc_pc.splits choice.splits option.splits if_splits opcode.splits sum.splits)
next
  case (F_writePong pc p c e) then show ?thesis using assms
    by (auto simp: exec_def exec_writePong_def split: call_pc.splits choice.splits)
next
  case (F_Close pc code reason e) then show ?thesis using assms
    by (auto simp: exec_def exec_Close_def split: call_pc.splits choice.splits sum.splits)
next
  case (F_writeClose pc p cerr c e) then show ?thesis using assms
    by (auto simp: exec_def exec_writeClose_def split: wc_pc.splits choice.splits)
next
  case (F_ping pc c ident p pong e) then show ?thesis using assms
    by (auto simp: exec_def exec_ping_def split: pg_pc.splits choice.splits if_splits)
next
  case (F_timeoutLoop pc r w p) then show ?thesis using assms
    by (auto simp: exec_def exec_timeoutLoop_def split: tl_pc.splits choice.splits if_splits)
next
  case (F_SetReadLimit n) then show ?thesis using assms
    by (auto simp: exec_def exec_SetReadLimit_def split: choice.splits)
next
  case (F_panic m) then show ?thesis using assms by (simp add: exec_def)
qed

lemma peer_rd: "peer s s' \<Longrightarrow> rd s' = rd s"
  by (simp add: peer_def)

lemma left_step:
  assumes stp: "step ev s = Some s1"
    and ch: "map_option lr_left (rd s1 t) \<noteq> map_option lr_left (rd s t)"
  shows "\<exists>ch n c x e. ev = Run t ch \<and> thr s t = [F_Reader (RR_Loaded n) c x e]"
proof (cases ev)
  case (Start t' a)
  then show ?thesis using stp ch by (auto simp: step_def split: if_splits option.splits)
next
  case (Cancel c)
  then show ?thesis using stp ch by (auto simp: step_def cancel_def split: if_splits)
next
  case (Run t' c')
  with stp obtain f st a s0 where top: "thr s t' = f # st" and ex: "exec c' f s = Some (a, s0)"
    and s1: "s1 = apply_act t' a st s0"
    by (auto elim: step_Run)
  have r0: "rd s0 = rd s" by (rule peer_rd [OF peer_exec [OF ex]])
  show ?thesis
  proof (cases a)
    case (Goto g)
    then show ?thesis using ch s1 r0 by (simp add: apply_act_def)
  next
    case (Call g k)
    then show ?thesis using ch s1 r0 by (simp add: apply_act_def)
  next
    case (Return v)
    show ?thesis
    proof (cases st)
      case (Cons k st')
      then show ?thesis using ch s1 r0 Return by (simp add: apply_act_def)
    next
      case Nil
      have s1': "s1 = finish t' v (s0\<lparr>thr := (thr s0)(t' := [])\<rparr>)"
        using s1 Return Nil by (simp add: apply_act_def)
      show ?thesis
      proof (cases "\<exists>x e. v = RLimited (Some x) e")
        case True
        then obtain n c y z where "f = F_Reader (RR_Loaded n) c y z"
          using ret_kind [OF ex [unfolded Return]] by blast
        moreover have "t' = t"
          using ch r0 unfolding s1' by (auto simp: finish_def split: retval.splits option.splits if_splits)
        ultimately show ?thesis using Run top Nil by simp
      next
        case False
        then have "map_option lr_left (rd s1 t) = map_option lr_left (rd s t)"
          using r0 unfolding s1' by (auto simp: finish_def split: retval.splits option.splits)
        with ch show ?thesis by simp
      qed
    qed
  qed
qed

text \<open>Claim C10, amended. The reader that \<^verbatim>\<open>Reader\<close> returns is bounded by the value the message-read limit has at the step at which \<^verbatim>\<open>Reader\<close> loads it (line 596, after \<^verbatim>\<open>reader\<close> has received the first header), whatever the other goroutines do between the load and the return; the bound of the reader a caller holds changes only when a \<^verbatim>\<open>Reader\<close> call of that caller returns; and \<^verbatim>\<open>SetReadLimit\<close> stores the limit and leaves every reader as it is.\<close>

theorem reader_limit_snapshot:
  "(thr s t = [F_Reader RR_After c (Some (mt, r)) None] \<and> step (Run t ch) s = Some s1
      \<and> run evs s1 = Some s1' \<and> others t evs \<and> step (Run t ch2) s1' = Some s2
       \<longrightarrow> thr s1 t = [F_Reader (RR_Loaded (msgReadLimit (conn s))) c (Some (mt, r)) None]
         \<and> rd s2 t = Some \<lparr>lr_r = r, lr_left = msgReadLimit (conn s)\<rparr>
         \<and> res s2 t = Some (RLimited (Some (mt, \<lparr>lr_r = r, lr_left = msgReadLimit (conn s)\<rparr>)) None))
   \<and> (step ev s = Some s1 \<and> map_option lr_left (rd s1 t) \<noteq> map_option lr_left (rd s t)
       \<longrightarrow> (\<exists>ch n c x e. ev = Run t ch \<and> thr s t = [F_Reader (RR_Loaded n) c x e]))
   \<and> (thr s t' = F_SetReadLimit n # st \<and> step (Run t' ch') s = Some s1
       \<longrightarrow> msgReadLimit (conn s1) = n \<and> rd s1 = rd s)"
proof -
  have p1: "thr s1 t = [F_Reader (RR_Loaded (msgReadLimit (conn s))) c (Some (mt, r)) None]
         \<and> rd s2 t = Some \<lparr>lr_r = r, lr_left = msgReadLimit (conn s)\<rparr>
         \<and> res s2 t = Some (RLimited (Some (mt, \<lparr>lr_r = r, lr_left = msgReadLimit (conn s)\<rparr>)) None)"
    if a: "thr s t = [F_Reader RR_After c (Some (mt, r)) None] \<and> step (Run t ch) s = Some s1
      \<and> run evs s1 = Some s1' \<and> others t evs \<and> step (Run t ch2) s1' = Some s2"
  proof -
    from a have t1: "thr s1 t = [F_Reader (RR_Loaded (msgReadLimit (conn s))) c (Some (mt, r)) None]"
      by (auto simp: step_def exec_def exec_Reader_def apply_act_def split: choice.splits)
    have "thr s1' t = thr s1 t"
      using run_thr [where s = s1 and t = t and evs = evs and s' = s1'] t1 a by simp
    with t1 have t2: "thr s1' t = [F_Reader (RR_Loaded (msgReadLimit (conn s))) c (Some (mt, r)) None]"
      by simp
    from a t2 have "rd s2 t = Some \<lparr>lr_r = r, lr_left = msgReadLimit (conn s)\<rparr>
         \<and> res s2 t = Some (RLimited (Some (mt, \<lparr>lr_r = r, lr_left = msgReadLimit (conn s)\<rparr>)) None)"
      by (auto simp: step_def exec_def exec_Reader_def apply_act_def finish_def split: choice.splits)
    with t1 show ?thesis by simp
  qed
  have p2: "\<exists>ch n c x e. ev = Run t ch \<and> thr s t = [F_Reader (RR_Loaded n) c x e]"
    if "step ev s = Some s1 \<and> map_option lr_left (rd s1 t) \<noteq> map_option lr_left (rd s t)"
    using that left_step by blast
  have p3: "msgReadLimit (conn s1) = n \<and> rd s1 = rd s"
    if "thr s t' = F_SetReadLimit n # st \<and> step (Run t' ch') s = Some s1"
    using that
    by (auto simp: step_def exec_def exec_SetReadLimit_def apply_act_def finish_def resume_def
        split: choice.splits list.splits)
  from p1 p2 p3 show ?thesis by blast
qed

subsection \<open>Runs that meet the hypotheses\<close>

lemma others_simps [simp]:
  "others t []"
  "others t (ev # evs) = (actor ev \<noteq> Some t \<and> others t evs)"
  by (simp_all add: others_def)

lemma actor_simps [simp]:
  "actor (Start t a) = Some t" "actor (Cancel c) = None" "actor (Run t ch) = Some t"
  by (simp_all add: actor_def)


theorem read_last_byte_acknowledges_witness:
  "\<exists>s s1 s2 s3 r. run tr_read_full (init False) = Some s
     \<and> thr s 2 = [F_mrRead MR_ReadFull r 2 [] None] \<and> r_h r = Some hdr_text_fin
     \<and> step (Run 2 (ChRead ''ab'' None)) s = Some s1
     \<and> step (Run 2 ChComm) s1 = Some s2
     \<and> \<not> closed (conn s2)
     \<and> step (Run 2 ChComm) s2 = Some s3
     \<and> locks (conn s2) ReadMsgLock \<and> \<not> locks (conn s3) ReadMsgLock
     \<and> thr s2 pump = [F_readLoop RL_WaitDone hdr_text_fin None]
     \<and> thr s3 pump = [F_readLoop RL_Top hdr_text_fin None]
     \<and> res s3 2 = Some (RRead \<lparr>r_ctx = UserCtx 1, maskPos = 0,
                                r_h = Some (hdr_text_fin\<lparr>payloadLength := 0\<rparr>), eofed = True\<rparr>
                          2 ''ab'' (Some EOF))"
proof -
  have "\<exists>s s1 s2 s3 r. run tr_read_full (init False) = Some s
     \<and> thr s 2 = [F_mrRead MR_ReadFull r 2 [] None] \<and> r_h r = Some hdr_text_fin
     \<and> r = \<lparr>r_ctx = UserCtx 1, maskPos = 0, r_h = Some hdr_text_fin, eofed = False\<rparr>
     \<and> step (Run 2 (ChRead ''ab'' None)) s = Some s1
     \<and> step (Run 2 ChComm) s1 = Some s2
     \<and> \<not> closed (conn s2)
     \<and> step (Run 2 ChComm) s2 = Some s3
     \<and> locks (conn s2) ReadMsgLock
     \<and> thr s2 pump = [F_readLoop RL_WaitDone hdr_text_fin None]"
    by (simp add: tr_read_full_def pump_delivers_def hdr_text_fin_def sem)
  then obtain s s1 s2 s3 r where f: "run tr_read_full (init False) = Some s"
     "thr s 2 = [F_mrRead MR_ReadFull r 2 [] None]" "r_h r = Some hdr_text_fin"
     "r = \<lparr>r_ctx = UserCtx 1, maskPos = 0, r_h = Some hdr_text_fin, eofed = False\<rparr>"
     "step (Run 2 (ChRead ''ab'' None)) s = Some s1"
     "step (Run 2 ChComm) s1 = Some s2"
     "\<not> closed (conn s2)"
     "step (Run 2 ChComm) s2 = Some s3"
     "locks (conn s2) ReadMsgLock"
     "thr s2 pump = [F_readLoop RL_WaitDone hdr_text_fin None]"
    by blast
  have l: "payloadLength hdr_text_fin = int (length ''ab'')" "fin hdr_text_fin" "\<not> masked hdr_text_fin"
    by (simp_all add: hdr_text_fin_def header0_def)
  have o: "run [] s1 = Some s1" "run [] s2 = Some s2" "others 2 []" by simp_all
  from read_last_byte_acknowledges [OF f(2) f(3) f(5) l(1) o(1) o(3) f(6) o(2) o(3) f(8)] l(2) l(3) f(10)
  have "\<not> locks (conn s3) ReadMsgLock" "thr s3 pump = [F_readLoop RL_Top hdr_text_fin None]"
    "res s3 2 = Some (RRead ((consumed hdr_text_fin r ''ab'')\<lparr>eofed := True\<rparr>) 2
                        (snd (unmask hdr_text_fin r ''ab'')) (Some EOF))"
    by auto
  moreover have "(consumed hdr_text_fin r ''ab'')\<lparr>eofed := True\<rparr> =
      \<lparr>r_ctx = UserCtx 1, maskPos = 0, r_h = Some (hdr_text_fin\<lparr>payloadLength := 0\<rparr>), eofed = True\<rparr>"
    "snd (unmask hdr_text_fin r ''ab'') = ''ab''"
    using f(4) l by (simp_all add: consumed_def unmask_def)
  ultimately show ?thesis using f by auto
qed




text \<open>A run for C10: the limit is 4 when \<^verbatim>\<open>Reader\<close> loads it and is set to 9 before \<^verbatim>\<open>Reader\<close> returns; the reader is bounded by 4, and still is when the limit is set to 7.\<close>

theorem reader_limit_snapshot_witness:
  "\<exists>s s1 s1' s2 r. run tr_limit_recv (init False) = Some s
     \<and> thr s 2 = [F_Reader RR_After (UserCtx 1) (Some (opText, r)) None]
     \<and> msgReadLimit (conn s) = 4
     \<and> step (Run 2 ChTau) s = Some s1
     \<and> run [Start 3 (CallSetReadLimit 9), Run 3 ChTau] s1 = Some s1'
     \<and> msgReadLimit (conn s1') = 9
     \<and> step (Run 2 ChTau) s1' = Some s2
     \<and> rd s2 2 = Some \<lparr>lr_r = r, lr_left = 4\<rparr>
     \<and> (\<exists>s3 s4. step (Start 3 (CallSetReadLimit 7)) s2 = Some s3 \<and> step (Run 3 ChTau) s3 = Some s4
          \<and> thr s3 3 = [F_SetReadLimit 7] \<and> msgReadLimit (conn s4) = 7
          \<and> rd s4 2 = Some \<lparr>lr_r = r, lr_left = 4\<rparr>)"
proof -
  have "\<exists>s s1 s1' s2 r s3 s4. run tr_limit_recv (init False) = Some s
     \<and> thr s 2 = [F_Reader RR_After (UserCtx 1) (Some (opText, r)) None]
     \<and> msgReadLimit (conn s) = 4
     \<and> step (Run 2 ChTau) s = Some s1
     \<and> run [Start 3 (CallSetReadLimit 9), Run 3 ChTau] s1 = Some s1'
     \<and> msgReadLimit (conn s1') = 9
     \<and> step (Run 2 ChTau) s1' = Some s2
     \<and> step (Start 3 (CallSetReadLimit 7)) s2 = Some s3 \<and> step (Run 3 ChTau) s3 = Some s4
     \<and> thr s3 3 = [F_SetReadLimit 7]"
    by (simp add: tr_limit_recv_def pump_delivers_def sem)
  then obtain s s1 s1' s2 r s3 s4 where f: "run tr_limit_recv (init False) = Some s"
     "thr s 2 = [F_Reader RR_After (UserCtx 1) (Some (opText, r)) None]"
     "msgReadLimit (conn s) = 4"
     "step (Run 2 ChTau) s = Some s1"
     "run [Start 3 (CallSetReadLimit 9), Run 3 ChTau] s1 = Some s1'"
     "msgReadLimit (conn s1') = 9"
     "step (Run 2 ChTau) s1' = Some s2"
     "step (Start 3 (CallSetReadLimit 7)) s2 = Some s3" "step (Run 3 ChTau) s3 = Some s4"
     "thr s3 3 = [F_SetReadLimit 7]"
    by blast
  have o: "others 2 [Start 3 (CallSetReadLimit 9), Run 3 ChTau]"
    by (simp add: others_def actor_def)
  have a: "rd s2 2 = Some \<lparr>lr_r = r, lr_left = 4\<rparr>"
    using reader_limit_snapshot [where s = s and t = 2 and c = "UserCtx 1" and mt = opText and r = r
        and ch = ChTau and ?s1.0 = s1 and evs = "[Start 3 (CallSetReadLimit 9), Run 3 ChTau]"
        and s1' = s1' and ?ch2.0 = ChTau and ?s2.0 = s2] f o
    by simp
  have b: "map_option lr_left (rd s3 2) = map_option lr_left (rd s2 2)"
    using reader_limit_snapshot [where s = s2 and t = 2 and ev = "Start 3 (CallSetReadLimit 7)"
        and ?s1.0 = s3] f(8)
    by auto
  have c: "msgReadLimit (conn s4) = 7 \<and> rd s4 = rd s3"
    using reader_limit_snapshot [where s = s3 and t' = 3 and n = 7 and st = "[]" and ch' = ChTau
        and ?s1.0 = s4] f
    by simp
  have d: "rd s3 2 = rd s2 2"
    using f(8) by (auto simp: step_def startFrame_def split: if_splits)
  from a b c d f show ?thesis by auto
qed

subsection \<open>Runs on which a claim fails as it is stated\<close>

text \<open>Claim C5 as stated fails: the read has taken the last two bytes of a FIN frame and the remaining length is 0, the connection has been closed meanwhile, and the read takes the closed latch: it returns the terminal error, not the end-of-stream sentinel, the pump still waits on \<^verbatim>\<open>readMsgDone\<close> and the read-message slot is still held.\<close>

theorem read_last_byte_counterexample:
  "thrAt tr_read_last 2 =
     Some [F_mrRead MR_Ack \<lparr>r_ctx = UserCtx 1, maskPos = 0,
             r_h = Some (hdr_text_fin\<lparr>payloadLength := 0\<rparr>), eofed = False\<rparr> 2 ''ab'' None]
   \<and> resAt (tr_read_last @ [Run 2 ChClosed]) 2 =
     Some (RRead \<lparr>r_ctx = UserCtx 1, maskPos = 0,
             r_h = Some (hdr_text_fin\<lparr>payloadLength := 0\<rparr>), eofed = False\<rparr> 2 ''ab''
            (Some (Errorf ''websocket closed''
               (Some (Errorf ''data read timed out'' (Some (CtxErr (UserCtx 1))))))))
   \<and> lockAt (tr_read_last @ [Run 2 ChClosed]) ReadMsgLock = Some True
   \<and> thrAt (tr_read_last @ [Run 2 ChClosed]) pump = Some [F_readLoop RL_WaitDone hdr_text_fin None]"
  by (simp add: thrAt_def resAt_def lockAt_def tr_read_last_def tr_deadline_close_def tr_read_full_def
        pump_delivers_def hdr_text_fin_def sem)




subsection \<open>Call stacks on the way of a close handshake\<close>

lemma kindOf_simps [simp]:
  "kindOf (F_close lpc e) = KClose"
  "kindOf (F_writeFrame wpc c h p e) = KOther"
  "kindOf (F_writeMessage cpc c opc p held e) = KWriteMessage"
  "kindOf (F_Writer c typ0) = KOther"
  "kindOf (F_mwWrite cpc w p e) = KOther"
  "kindOf (F_mwClose cpc w e) = KOther"
  "kindOf (F_reader rpc c ce) = KOther"
  "kindOf (F_Reader rrpc c x e) = KOther"
  "kindOf (F_mrRead mpc r k d e) = KOther"
  "kindOf (F_readLoop opc1 h e) = KOther"
  "kindOf (F_readTillMsg tpc h e) = KOther"
  "kindOf (F_readHeader hpc) = KOther"
  "kindOf (F_handleControl kpc h b) = KOther"
  "kindOf (F_writePong cpc p c e) = KOther"
  "kindOf (F_Close cpc code reason e) = KCloseCall"
  "kindOf (F_writeClose qpc p cerr c e) = KWriteClose"
  "kindOf (F_ping gpc c ident p pong e) = KOther"
  "kindOf (F_timeoutLoop upc r1 w1 p1) = KOther"
  "kindOf (F_SetReadLimit n) = KOther"
  "kindOf (F_panic m) = KOther"
  by (simp_all add: kindOf_def)

lemma need_simps [simp]:
  "need F a (F_close lpc e) = True"
  "need F a (F_writeFrame wpc c h p e) = True"
  "need F a (F_writeMessage cpc c opc p held e) = True"
  "need F a (F_Writer c typ0) = True"
  "need F a (F_mwWrite cpc w p e) = True"
  "need F a (F_mwClose cpc w e) = True"
  "need F a (F_reader rpc c ce) = (rpc = RD_AfterClose \<longrightarrow> F \<or> a = Some KCloseCall)"
  "need F a (F_Reader rrpc c x e) = True"
  "need F a (F_mrRead mpc r k d e) = (mpc = MR_AfterClose \<longrightarrow> F \<or> a = Some KCloseCall)"
  "need F a (F_readLoop opc1 h e) = True"
  "need F a (F_readTillMsg tpc h e) = True"
  "need F a (F_readHeader hpc) = True"
  "need F a (F_handleControl kpc h b) = True"
  "need F a (F_writePong cpc p c e) = True"
  "need F a (F_Close Enter code reason e) = (a = None)"
  "need F a (F_Close Wait code reason e) = (a = Some KWriteClose)"
  "need F a (F_Close After code reason e) = F"
  "need F a (F_writeClose WC_Start p cerr c e) = (a = None)"
  "need F a (F_writeClose WC_Wait1 p cerr c e) = (a = Some KWriteMessage)"
  "need F a (F_writeClose WC_AfterWM p cerr c e) = (a = None)"
  "need F a (F_writeClose WC_Wait2 p cerr c e) = (a = Some KClose)"
  "need F a (F_writeClose WC_AfterClose p cerr c e) = F"
  "need F a (F_ping gpc c ident p pong e) = True"
  "need F a (F_timeoutLoop upc r1 w1 p1) = True"
  "need F a (F_SetReadLimit n) = True"
  "need F a (F_panic m) = True"
  by (simp_all add: need_def)




lemma kindOf_resume [simp]: "kindOf (resume k v) = kindOf k"
  by (cases k) (auto simp: resume_def split: retval.splits)


























lemma need_resume_other:
  "kindOf k = KOther \<Longrightarrow> need F a k \<Longrightarrow> need F a (resume k v)"
  by (cases k) (auto simp: resume_def split: retval.splits)








subsection \<open>The continuation discipline\<close>



end
